theory Spec2Isabelle
  imports Main "HOL-Library.Sublist"
begin

section \<open>Text helpers\<close>

text \<open>
  Python strings are modelled as \<^typ>\<open>string\<close>; the helpers below are the string
  operations the sources use (\<open>str.upper\<close>, \<open>str.join\<close>, \<open>str.strip\<close>, \<open>str(int)\<close>).
  A \<^typ>\<open>char\<close> stands for a code point below 256: \<open>is_space\<close> is \<open>str.isspace\<close> on that
  range (the whitespace \<open>str.strip\<close> removes), and \<open>upper\<close> is \<open>str.upper\<close> on ASCII text.
\<close>

definition nl :: string where
  "nl = [CHR 0x0A]"

definition upper_char :: "char \<Rightarrow> char" where
  "upper_char c =
     (let n = (of_char c :: nat)
      in if 97 \<le> n \<and> n \<le> 122 then char_of (n - 32) else c)"

definition upper :: "string \<Rightarrow> string" where
  "upper s = map upper_char s"

fun join :: "string \<Rightarrow> string list \<Rightarrow> string" where
  "join sep [] = []"
| "join sep [x] = x"
| "join sep (x # y # ys) = x @ sep @ join sep (y # ys)"

definition is_space :: "char \<Rightarrow> bool" where
  "is_space c =
     (let n = (of_char c :: nat)
      in (9 \<le> n \<and> n \<le> 13) \<or> (28 \<le> n \<and> n \<le> 32) \<or> n = 133 \<or> n = 160)"

definition strip :: "string \<Rightarrow> string" where
  "strip s = rev (dropWhile is_space (rev (dropWhile is_space s)))"

definition digit_char :: "nat \<Rightarrow> char" where
  "digit_char d = char_of (48 + d)"

fun str_nat :: "nat \<Rightarrow> string" where
  "str_nat n = (if n < 10 then [digit_char n] else str_nat (n div 10) @ [digit_char (n mod 10)])"

definition str_int :: "int \<Rightarrow> string" where
  "str_int i = (if i < 0 then CHR ''-'' # str_nat (nat (- i)) else str_nat (nat i))"

section \<open>Shared state (state.py)\<close>

text \<open>
  A requested tool invocation carries a tool name and an argument dictionary; the
  dictionary is kept as an association list from argument name to value text.
\<close>

type_synonym args = "(string \<times> string) list"

record tool_call =
  tc_name :: string
  tc_args :: args

datatype role = Human | AI

text \<open>
  A message of the conversation. \<open>tool_calls\<close> is \<open>None\<close> for a message class without
  that attribute (\<open>HumanMessage\<close>) and \<open>Some cs\<close> for an \<open>AIMessage\<close>.
\<close>

record message =
  role :: role
  content :: string
  tool_calls :: "tool_call list option"

definition HumanMessage :: "string \<Rightarrow> message" where
  "HumanMessage c = \<lparr>role = Human, content = c, tool_calls = None\<rparr>"

definition AIMessage :: "string \<Rightarrow> message" where
  "AIMessage c = \<lparr>role = AI, content = c, tool_calls = Some []\<rparr>"

text \<open>
  One entry of \<open>tool_results\<close>: the dictionary \<open>{"tool", "args", "result"}\<close> built after
  a normal return, or \<open>{"tool", "args", "error"}\<close> built in the \<open>except\<close> branch. The
  test \<open>"error" in tr\<close> is the case distinction on \<open>tr_outcome\<close>.
\<close>

datatype outcome = Result string | Error string

record tool_result =
  tr_tool :: string
  tr_args :: args
  tr_outcome :: outcome

text \<open>One entry of \<open>intermediate_results\<close>: \<open>{"agent": ..., "tool_results": ...}\<close>.\<close>

record turn_record =
  agent :: string
  tool_results :: "tool_result list"

text \<open>
  \<open>AgentState\<close> as the graph holds it. \<open>messages\<close> is the channel with the
  \<open>add_messages\<close> reducer and always has a value; the other three keys are read with
  \<open>state.get(key, default)\<close>, so each may be absent (\<open>None\<close>).
\<close>

record AgentState =
  messages :: "message list"
  next_agent :: "string option"
  task_context :: "(string \<rightharpoonup> string) option"
  intermediate_results :: "turn_record list option"

text \<open>
  The dictionary a node returns: any subset of the four keys of \<open>AgentState\<close>.
\<close>

record StateUpdate =
  upd_messages :: "message list option"
  upd_next_agent :: "string option"
  upd_task_context :: "(string \<rightharpoonup> string) option"
  upd_intermediate_results :: "turn_record list option"

definition no_update :: StateUpdate where
  "no_update = \<lparr>upd_messages = None, upd_next_agent = None,
                 upd_task_context = None, upd_intermediate_results = None\<rparr>"

text \<open>
  Modelled from the spec: \<open>add_messages\<close>, the reducer named in the annotation of
  \<open>messages\<close>, is imported from the graph library and is not part of the sources. The
  specification describes it: new messages from a turn are appended to \<open>history\<close>, not
  replacing prior ones.
\<close>

definition add_messages :: "message list \<Rightarrow> message list \<Rightarrow> message list" where
  "add_messages left right = left @ right"

text \<open>
  Applying a node's update to the state: \<open>messages\<close> goes through its reducer; the
  three keys without a reducer are overwritten when the update has them.
\<close>

definition merge :: "AgentState \<Rightarrow> StateUpdate \<Rightarrow> AgentState" where
  "merge s u =
     \<lparr>messages = (case upd_messages u of None \<Rightarrow> messages s
                  | Some ms \<Rightarrow> add_messages (messages s) ms),
      next_agent = (case upd_next_agent u of None \<Rightarrow> next_agent s | Some n \<Rightarrow> Some n),
      task_context = (case upd_task_context u of None \<Rightarrow> task_context s | Some c \<Rightarrow> Some c),
      intermediate_results =
        (case upd_intermediate_results u of None \<Rightarrow> intermediate_results s
         | Some rs \<Rightarrow> Some rs)\<rparr>"

section \<open>Configuration (config.py)\<close>

text \<open>
  The configuration read from the environment; a variable that is not set gives the
  default, the empty text for the two keys. (\<open>temperature\<close>, a float, is left out.)
\<close>

record Config =
  openai_api_key :: string
  model_name :: string
  tavily_api_key :: string
  database_url :: string
  allowed_file_path :: string
  code_execution_timeout :: int

definition validate :: "Config \<Rightarrow> string list" where
  "validate cfg =
     (let missing = []
      in if openai_api_key cfg = [] then missing @ [''OPENAI_API_KEY''] else missing)"

section \<open>Worker turn (agents.py)\<close>

text \<open>
  A bound tool: its name and its \<open>invoke\<close>. Invoking a tool acts on the outside world
  (files, processes, network), of type \<^typ>\<open>'w\<close>, and either returns a value
  (\<open>Inr\<close>) or raises an exception, of which the worker keeps \<open>str(e)\<close> (\<open>Inl\<close>).
\<close>

record 'w tool =
  tool_name :: string
  tool_invoke :: "args \<Rightarrow> 'w \<Rightarrow> (string + string) \<times> 'w"

text \<open>The inner loop \<open>for tool in tools: if tool.name == tool_name: ... break\<close>.\<close>

primrec find_tool :: "'w tool list \<Rightarrow> string \<Rightarrow> 'w tool option" where
  "find_tool [] n = None"
| "find_tool (t # ts) n = (if tool_name t = n then Some t else find_tool ts n)"

text \<open>
  The outer loop over \<open>response.tool_calls\<close>, with \<open>tool_results\<close> as accumulator. A
  call whose name matches no tool leaves the accumulator as it is.
\<close>

fun run_tool_calls ::
  "'w tool list \<Rightarrow> tool_call list \<Rightarrow> tool_result list \<Rightarrow> 'w \<Rightarrow> tool_result list \<times> 'w" where
  "run_tool_calls tools [] acc w = (acc, w)"
| "run_tool_calls tools (tc # tcs) acc w =
     (case find_tool tools (tc_name tc) of
        None \<Rightarrow> run_tool_calls tools tcs acc w
      | Some t \<Rightarrow>
          (case tool_invoke t (tc_args tc) w of
             (Inr result, w') \<Rightarrow>
               run_tool_calls tools tcs
                 (acc @ [\<lparr>tr_tool = tc_name tc, tr_args = tc_args tc,
                          tr_outcome = Result result\<rparr>]) w'
           | (Inl e, w') \<Rightarrow>
               run_tool_calls tools tcs
                 (acc @ [\<lparr>tr_tool = tc_name tc, tr_args = tc_args tc,
                          tr_outcome = Error e\<rparr>]) w'))"

text \<open>\<open>state.get("intermediate_results", [])\<close>.\<close>

definition get_intermediate_results :: "AgentState \<Rightarrow> turn_record list" where
  "get_intermediate_results state =
     (case intermediate_results state of None \<Rightarrow> [] | Some rs \<Rightarrow> rs)"

definition summary_line :: "tool_result \<Rightarrow> string" where
  "summary_line tr =
     (case tr_outcome tr of
        Error e \<Rightarrow> ''Tool '' @ tr_tool tr @ '' failed: '' @ e @ nl
      | Result r \<Rightarrow> ''Tool '' @ tr_tool tr @ '': '' @ r @ nl)"

definition result_summary :: "string \<Rightarrow> tool_result list \<Rightarrow> string" where
  "result_summary agent_name trs =
     foldl (\<lambda>s tr. s @ summary_line tr) (''['' @ upper agent_name @ '' AGENT RESULTS]'' @ nl) trs"

text \<open>
  \<open>agent_node\<close> of the worker \<open>agent_name\<close> bound to \<open>tools\<close>. The reply of the language
  model (\<open>response\<close>) is outside the program and is a parameter of the turn.
\<close>

definition agent_node ::
  "string \<Rightarrow> 'w tool list \<Rightarrow> message \<Rightarrow> AgentState \<Rightarrow> 'w \<Rightarrow> StateUpdate \<times> 'w" where
  "agent_node agent_name tools response state w =
     (case tool_calls response of
        Some (c # cs) \<Rightarrow>
          (let (trs, w') = run_tool_calls tools (c # cs) [] w;
               final_message = AIMessage (result_summary agent_name trs);
               new_results =
                 get_intermediate_results state
                 @ [\<lparr>agent = agent_name, tool_results = trs\<rparr>]
           in (no_update\<lparr>upd_messages := Some [final_message],
                         upd_intermediate_results := Some new_results\<rparr>, w'))
      | _ \<Rightarrow> (no_update\<lparr>upd_messages := Some [response]\<rparr>, w))"

text \<open>
  The client object \<open>ChatOpenAI(model=..., temperature=..., api_key=...)\<close> builds. The
  constructor belongs to the language-model library and is a parameter, \<open>ChatOpenAI\<close>,
  of what follows: given the model name and the API key it returns a client (\<open>Inr\<close>)
  or raises (\<open>Inl\<close>, the text of the exception).
\<close>

record llm_client =
  client_model :: string
  client_api_key :: string

type_synonym 'w agent_func = "message \<Rightarrow> AgentState \<Rightarrow> 'w \<Rightarrow> StateUpdate \<times> 'w"

text \<open>
  \<open>create_agent_node\<close>: it looks up the tools of the worker, builds the client, and
  returns the worker's \<open>agent_node\<close>. An exception of the constructor leaves
  \<open>create_agent_node\<close>. The table \<open>AGENT_TOOLS\<close> is a parameter.
\<close>

definition create_agent_node ::
  "(string \<Rightarrow> string \<Rightarrow> string + llm_client) \<Rightarrow> Config \<Rightarrow> (string \<rightharpoonup> 'w tool list)
     \<Rightarrow> string \<Rightarrow> string + 'w agent_func" where
  "create_agent_node ChatOpenAI cfg AGENT_TOOLS agent_name =
     (let tools = (case AGENT_TOOLS agent_name of None \<Rightarrow> [] | Some ts \<Rightarrow> ts)
      in case ChatOpenAI (model_name cfg) (openai_api_key cfg) of
           Inl e \<Rightarrow> Inl e
         | Inr llm \<Rightarrow> Inr (agent_node agent_name tools))"

definition agent_names :: "string list" where
  "agent_names = [''research'', ''code'', ''files'', ''database'', ''api'']"

text \<open>
  The statements at the end of the module, which run when it is imported:
  \<open>research_agent = create_agent_node("research")\<close> and so on for the five names in
  this order, then the dictionary \<open>AGENT_NODES\<close> of the five nodes. The first call that
  raises ends the import with that exception.
\<close>

fun create_nodes ::
  "(string \<Rightarrow> string \<Rightarrow> string + llm_client) \<Rightarrow> Config \<Rightarrow> (string \<rightharpoonup> 'w tool list)
     \<Rightarrow> string list \<Rightarrow> string + (string \<times> 'w agent_func) list" where
  "create_nodes ChatOpenAI cfg AGENT_TOOLS [] = Inr []"
| "create_nodes ChatOpenAI cfg AGENT_TOOLS (n # ns) =
     (case create_agent_node ChatOpenAI cfg AGENT_TOOLS n of
        Inl e \<Rightarrow> Inl e
      | Inr f \<Rightarrow>
          (case create_nodes ChatOpenAI cfg AGENT_TOOLS ns of
             Inl e \<Rightarrow> Inl e
           | Inr fs \<Rightarrow> Inr ((n, f) # fs)))"

definition AGENT_NODES ::
  "(string \<Rightarrow> string \<Rightarrow> string + llm_client) \<Rightarrow> Config \<Rightarrow> (string \<rightharpoonup> 'w tool list)
     \<Rightarrow> string + (string \<rightharpoonup> 'w agent_func)" where
  "AGENT_NODES ChatOpenAI cfg AGENT_TOOLS =
     (case create_nodes ChatOpenAI cfg AGENT_TOOLS agent_names of
        Inl e \<Rightarrow> Inl e
      | Inr fs \<Rightarrow> Inr (map_of fs))"

section \<open>Router turn (supervisor.py)\<close>

text \<open>
  The \<open>Literal\<close> type of \<open>RouterDecision.next_agent\<close>: the structured output of the
  language model is validated against it, so a decision holds one of these six values.
\<close>

datatype AGENTS = Research | Code | Files | Database | Api | Finish

fun agent_id :: "AGENTS \<Rightarrow> string" where
  "agent_id Research = ''research''"
| "agent_id Code = ''code''"
| "agent_id Files = ''files''"
| "agent_id Database = ''database''"
| "agent_id Api = ''api''"
| "agent_id Finish = ''FINISH''"

record RouterDecision =
  rd_next_agent :: AGENTS
  reasoning :: string

text \<open>
  \<open>supervisor_node\<close>. The prompt it builds from the state only feeds the language
  model, whose \<open>decision\<close> is a parameter of the turn.
\<close>

definition supervisor_node :: "RouterDecision \<Rightarrow> AgentState \<Rightarrow> StateUpdate" where
  "supervisor_node decision state =
     (let task_context = (case task_context state of None \<Rightarrow> Map.empty | Some c \<Rightarrow> c);
          new_context = task_context(''last_routing_reason'' \<mapsto> reasoning decision)
      in no_update\<lparr>upd_next_agent := Some (agent_id (rd_next_agent decision)),
                    upd_task_context := Some new_context\<rparr>)"

section \<open>Workflow graph (graph.py)\<close>

definition END :: string where
  "END = ''__end__''"

definition route_to_agent :: "AgentState \<Rightarrow> string" where
  "route_to_agent state =
     (let next_agent = (case next_agent state of None \<Rightarrow> ''FINISH'' | Some n \<Rightarrow> n)
      in if next_agent = ''FINISH'' then END else next_agent)"

text \<open>The mapping given to \<open>add_conditional_edges\<close>.\<close>

definition path_map :: "string \<rightharpoonup> string" where
  "path_map = map_of
     [(''research'', ''research''), (''code'', ''code''), (''files'', ''files''),
      (''database'', ''database''), (''api'', ''api''), (END, END)]"

text \<open>
  What the language model does in one step of the graph: its reply to the router's
  request and its reply to a worker's request (the node that runs reads its own). Each
  is the value returned (\<open>Inr\<close>) or the text of the exception raised (\<open>Inl\<close>).
\<close>

record llm_turn =
  router_reply :: "string + RouterDecision"
  worker_reply :: "string + message"

datatype run_status = Ended | Raised string | Running string

record 'w graph_run =
  status :: run_status
  chunks :: "(string \<times> StateUpdate) list"
  final_state :: AgentState
  world :: 'w

text \<open>
  The compiled graph, run from node \<open>node\<close>, with \<open>nodes\<close> the worker nodes added from
  \<open>AGENT_NODES\<close>: the supervisor is followed by the
  conditional edge \<open>route_to_agent\<close> through \<open>path_map\<close>, every worker by the edge back to
  the supervisor. The source puts no bound on the number of steps; here the list of
  language-model replies bounds it, and a run that has used all of them is
  \<open>Running\<close>. An exception raised in a node, or a route that \<open>path_map\<close> lacks, ends
  the run as \<open>Raised\<close>; so would the step limit of the graph library, which is
  outside the sources. \<open>acc\<close> holds the chunks streamed so far, one
  \<open>(node name, update)\<close> per completed node.
\<close>

fun graph_loop ::
  "(string \<rightharpoonup> 'w agent_func) \<Rightarrow> llm_turn list \<Rightarrow> string \<Rightarrow> AgentState \<Rightarrow> 'w
     \<Rightarrow> (string \<times> StateUpdate) list \<Rightarrow> 'w graph_run" where
  "graph_loop nodes [] node s w acc =
     \<lparr>status = Running node, chunks = acc, final_state = s, world = w\<rparr>"
| "graph_loop nodes (t # ts) node s w acc =
     (if node = ''supervisor'' then
        (case router_reply t of
           Inl e \<Rightarrow> \<lparr>status = Raised e, chunks = acc, final_state = s, world = w\<rparr>
         | Inr decision \<Rightarrow>
             (let u = supervisor_node decision s;
                  s' = merge s u;
                  acc' = acc @ [(node, u)]
              in case path_map (route_to_agent s') of
                   None \<Rightarrow> \<lparr>status = Raised (''KeyError: '' @ route_to_agent s'),
                            chunks = acc', final_state = s', world = w\<rparr>
                 | Some target \<Rightarrow>
                     if target = END
                     then \<lparr>status = Ended, chunks = acc', final_state = s', world = w\<rparr>
                     else graph_loop nodes ts target s' w acc'))
      else
        (case nodes node of
           None \<Rightarrow> \<lparr>status = Raised (''unknown node: '' @ node), chunks = acc,
                    final_state = s, world = w\<rparr>
         | Some agent_func \<Rightarrow>
             (case worker_reply t of
                Inl e \<Rightarrow> \<lparr>status = Raised e, chunks = acc, final_state = s, world = w\<rparr>
              | Inr response \<Rightarrow>
                  (let (u, w') = agent_func response s w
                   in graph_loop nodes ts ''supervisor'' (merge s u) w' (acc @ [(node, u)])))))"

text \<open>\<open>workflow.astream(initial_state)\<close>: the run from the entry point.\<close>

definition astream ::
  "(string \<rightharpoonup> 'w agent_func) \<Rightarrow> llm_turn list \<Rightarrow> AgentState \<Rightarrow> 'w \<Rightarrow> 'w graph_run" where
  "astream nodes tape initial_state w = graph_loop nodes tape ''supervisor'' initial_state w []"

text \<open>
  A streamed chunk that comes from a supervisor turn whose update sets \<open>next_agent\<close> to
  \<open>FINISH\<close>.
\<close>

definition finish_chunk :: "string \<times> StateUpdate \<Rightarrow> bool" where
  "finish_chunk c \<longleftrightarrow> fst c = ''supervisor'' \<and> upd_next_agent (snd c) = Some ''FINISH''"

section \<open>Entry point (main.py)\<close>

text \<open>
  The value \<open>run_agent\<close> returns after the stream has ended: the content of the last
  message of the last chunk, when that chunk has messages.
\<close>

definition final_response :: "(string \<times> StateUpdate) list \<Rightarrow> string" where
  "final_response cs =
     (if cs = [] then ''No response generated''
      else (case upd_messages (snd (last cs)) of
              Some (m # ms) \<Rightarrow> content (last (m # ms))
            | _ \<Rightarrow> ''No response generated''))"

text \<open>
  \<open>run_agent\<close> (printing left out). The first component is the run of the workflow,
  \<open>None\<close> when the workflow was not started; the second is the returned text, \<open>None\<close>
  when the call does not return (the stream raised, or is still running).
\<close>

definition run_agent ::
  "Config \<Rightarrow> (string \<rightharpoonup> 'w agent_func) \<Rightarrow> llm_turn list \<Rightarrow> string \<Rightarrow> 'w
     \<Rightarrow> 'w graph_run option \<times> string option" where
  "run_agent cfg nodes tape query w =
     (let missing = validate cfg
      in if missing \<noteq> []
         then (None, Some (''Error: Missing required configuration: '' @ join '', '' missing))
         else
           (let initial_state =
                  \<lparr>messages = [HumanMessage query], next_agent = Some [],
                   task_context = Some [''original_query'' \<mapsto> query],
                   intermediate_results = Some []\<rparr>;
                r = astream nodes tape initial_state w
            in (Some r,
                (case status r of Ended \<Rightarrow> Some (final_response (chunks r)) | _ \<Rightarrow> None))))"

text \<open>
  The program \<open>python -m src.main query\<close>. The \<open>import\<close> statements at the top of
  \<open>main.py\<close> run first: importing \<open>src.graph\<close> imports \<open>src.agents\<close>, which builds
  \<open>AGENT_NODES\<close>, and then compiles the graph over these nodes. An exception there ends
  the process before \<open>main\<close> and \<open>run_agent\<close> are called.
\<close>

datatype 'w process = ImportRaised string | Returned "'w graph_run option \<times> string option"

definition src_main ::
  "(string \<Rightarrow> string \<Rightarrow> string + llm_client) \<Rightarrow> Config \<Rightarrow> (string \<rightharpoonup> 'w tool list)
     \<Rightarrow> llm_turn list \<Rightarrow> string \<Rightarrow> 'w \<Rightarrow> 'w process" where
  "src_main ChatOpenAI cfg AGENT_TOOLS tape query w =
     (case AGENT_NODES ChatOpenAI cfg AGENT_TOOLS of
        Inl e \<Rightarrow> ImportRaised e
      | Inr nodes \<Rightarrow> Returned (run_agent cfg nodes tape query w))"

section \<open>Tools (tools.py)\<close>

subsection \<open>Code execution\<close>

text \<open>What \<open>subprocess.run\<close> does: it completes with stdout, stderr and a return code,
  raises \<open>TimeoutExpired\<close> at the configured timeout, or raises something else.\<close>

datatype subprocess_outcome =
  CompletedProcess string string int
| TimeoutExpired
| RunError string

text \<open>
  What the operating system does during one call of \<open>execute_python\<close>: whether writing
  the temporary file raises, how the subprocess ends, whether \<open>os.unlink\<close> raises.
\<close>

record exec_env =
  tempfile_error :: "string option"
  subprocess_run :: subprocess_outcome
  unlink_error :: "string option"

datatype exec_exception = TimedOut | OtherException string

definition completed_output :: "string \<Rightarrow> string \<Rightarrow> int \<Rightarrow> string" where
  "completed_output out err returncode =
     (let output = [];
          output = (if out \<noteq> [] then output @ ''STDOUT:'' @ nl @ out @ nl else output);
          output = (if err \<noteq> [] then output @ ''STDERR:'' @ nl @ err @ nl else output);
          output = (if returncode \<noteq> 0 then output @ ''Exit code: '' @ str_int returncode
                    else output)
      in if strip output \<noteq> [] then strip output
         else ''Code executed successfully (no output)'')"

text \<open>
  \<open>execute_python\<close>: the inner \<open>try\<close> runs the subprocess, its \<open>finally\<close> unlinks the
  temporary file (an exception there replaces whatever the body did), and the outer
  \<open>except\<close> clauses turn every exception into returned text.
\<close>

definition execute_python :: "Config \<Rightarrow> exec_env \<Rightarrow> string" where
  "execute_python cfg env =
     (case tempfile_error env of
        Some e \<Rightarrow> ''Execution error: '' @ e
      | None \<Rightarrow>
          (let body = (case subprocess_run env of
                         CompletedProcess out err rc \<Rightarrow> Inr (completed_output out err rc)
                       | TimeoutExpired \<Rightarrow> Inl TimedOut
                       | RunError e \<Rightarrow> Inl (OtherException e));
               after_finally = (case unlink_error env of
                                  Some e \<Rightarrow> Inl (OtherException e)
                                | None \<Rightarrow> body)
           in case after_finally of
                Inr output \<Rightarrow> output
              | Inl TimedOut \<Rightarrow>
                  ''Error: Code execution timed out after ''
                    @ str_int (code_execution_timeout cfg) @ '' seconds''
              | Inl (OtherException e) \<Rightarrow> ''Execution error: '' @ e))"

text \<open>
  The tool object the \<open>@tool\<close> decorator makes of \<open>execute_python\<close>, as the worker
  invokes it: the argument \<open>code\<close> is taken from the argument dictionary (the call
  raises when it is missing, with the text \<open>bad_args\<close> gives), and \<open>sandbox\<close> says what
  running that code does in the world.
\<close>

definition execute_python_tool ::
  "Config \<Rightarrow> (string \<Rightarrow> 'w \<Rightarrow> exec_env \<times> 'w) \<Rightarrow> (args \<Rightarrow> string) \<Rightarrow> 'w tool" where
  "execute_python_tool cfg sandbox bad_args =
     \<lparr>tool_name = ''execute_python'',
      tool_invoke = (\<lambda>a w.
        (case map_of a ''code'' of
           None \<Rightarrow> (Inl (bad_args a), w)
         | Some code \<Rightarrow>
             (let (env, w') = sandbox code w in (Inr (execute_python cfg env), w'))))\<rparr>"

subsection \<open>File access\<close>

text \<open>
  \<open>_validate_path\<close>. \<open>os.path.abspath\<close> belongs to the standard library and is the
  parameter \<open>abspath\<close>: it returns the absolute path (\<open>Inr\<close>) or raises (\<open>Inl\<close>, the text
  of the exception). \<open>str.startswith\<close> is \<^const>\<open>prefix\<close>.
\<close>

definition validate_path ::
  "(string \<Rightarrow> string + string) \<Rightarrow> Config \<Rightarrow> string \<Rightarrow> string option" where
  "validate_path abspath cfg path =
     (case abspath path of
        Inl e \<Rightarrow> Some (''Path validation error: '' @ e)
      | Inr abs_path \<Rightarrow>
          (case abspath (allowed_file_path cfg) of
             Inl e \<Rightarrow> Some (''Path validation error: '' @ e)
           | Inr allowed \<Rightarrow>
               if \<not> prefix allowed abs_path
               then Some (''Error: Path '' @ [CHR 0x27] @ path @ [CHR 0x27]
                          @ '' is outside allowed directory '' @ [CHR 0x27]
                          @ allowed_file_path cfg @ [CHR 0x27])
               else None))"

text \<open>\<open>os.path.dirname\<close> for POSIX paths.\<close>

definition dirname :: "string \<Rightarrow> string" where
  "dirname p =
     (let head = rev (dropWhile (\<lambda>c. c \<noteq> CHR ''/'') (rev p))
      in if head \<noteq> [] \<and> head \<noteq> replicate (length head) CHR ''/''
         then rev (dropWhile (\<lambda>c. c = CHR ''/'') (rev head))
         else head)"

text \<open>
  The two file-system operations of \<open>write_file\<close>. \<open>os_env\<close> says which of them raise
  (and with what text); the operations that were carried out are returned beside the
  text of the tool.
\<close>

datatype fs_event = Makedirs string | WriteText string string

record os_env =
  os_makedirs :: "string \<Rightarrow> string option"
  os_write :: "string \<Rightarrow> string \<Rightarrow> string option"

definition write_checked :: "os_env \<Rightarrow> string \<Rightarrow> string \<Rightarrow> string \<times> fs_event list" where
  "write_checked env file_path body =
     (case os_makedirs env (dirname file_path) of
        Some e \<Rightarrow> (''Error writing file: '' @ e, [])
      | None \<Rightarrow>
          (case os_write env file_path body of
             Some e \<Rightarrow> (''Error writing file: '' @ e, [Makedirs (dirname file_path)])
           | None \<Rightarrow>
               (''Successfully wrote '' @ str_nat (length body)
                  @ '' characters to '' @ file_path,
                [Makedirs (dirname file_path), WriteText file_path body])))"

text \<open>
  \<open>write_file\<close>: \<open>if error := _validate_path(file_path): return error\<close>, then the
  \<open>try\<close> block, which is \<open>write_checked\<close>. The text to write is \<open>body\<close> (\<open>content\<close> in
  the source).
\<close>

definition write_file ::
  "(string \<Rightarrow> string + string) \<Rightarrow> Config \<Rightarrow> os_env \<Rightarrow> string \<Rightarrow> string
     \<Rightarrow> string \<times> fs_event list" where
  "write_file abspath cfg env file_path body =
     (case validate_path abspath cfg file_path of
        Some error \<Rightarrow> if error \<noteq> [] then (error, []) else write_checked env file_path body
      | None \<Rightarrow> write_checked env file_path body)"

text \<open>
  \<open>os.path.abspath\<close> of the standard library for POSIX, with the current directory
  \<open>cwd\<close>: a relative path is joined to \<open>cwd\<close>, then \<open>normpath\<close> drops empty and \<open>.\<close>
  components and resolves \<open>..\<close>.
\<close>

fun split_sep :: "string \<Rightarrow> string list" where
  "split_sep [] = [[]]"
| "split_sep (c # cs) =
     (if c = CHR ''/'' then [] # split_sep cs
      else (case split_sep cs of [] \<Rightarrow> [[c]] | h # t \<Rightarrow> (c # h) # t))"

definition norm_step :: "nat \<Rightarrow> string list \<Rightarrow> string \<Rightarrow> string list" where
  "norm_step initial_slashes new_comps part =
     (if part = [] \<or> part = ''.'' then new_comps
      else if part \<noteq> ''..'' \<or> (initial_slashes = 0 \<and> new_comps = [])
              \<or> (new_comps \<noteq> [] \<and> last new_comps = ''..'')
      then new_comps @ [part]
      else if new_comps \<noteq> [] then butlast new_comps
      else new_comps)"

definition normpath :: "string \<Rightarrow> string" where
  "normpath path =
     (if path = [] then ''.''
      else
        (let initial_slashes =
               (if prefix ''/'' path
                then (if prefix ''//'' path \<and> \<not> prefix ''///'' path then 2 else 1)
                else 0);
             comps = foldl (norm_step initial_slashes) [] (split_sep path);
             p = replicate initial_slashes CHR ''/'' @ join ''/'' comps
         in if p = [] then ''.'' else p))"

definition posix_abspath :: "string \<Rightarrow> string \<Rightarrow> string + string" where
  "posix_abspath cwd path =
     Inr (normpath
       (if prefix ''/'' path then path
        else if cwd = [] \<or> last cwd = CHR ''/'' then cwd @ path
        else cwd @ ''/'' @ path))"

section \<open>Sample inputs\<close>

text \<open>
  Concrete inputs on which the theorems below are instantiated. The sample tools act on
  a world that counts the invocations performed.
\<close>

definition sample_config :: Config where
  "sample_config =
     \<lparr>openai_api_key = ''sk-test'', model_name = ''gpt-4o'', tavily_api_key = [],
      database_url = ''sqlite:///./data.db'', allowed_file_path = ''/tmp/data'',
      code_execution_timeout = 30\<rparr>"

definition sample_state :: AgentState where
  "sample_state =
     \<lparr>messages = [HumanMessage ''What is 2+2?''], next_agent = Some [],
      task_context = Some [''original_query'' \<mapsto> ''What is 2+2?''],
      intermediate_results = Some []\<rparr>"

definition sample_decision :: RouterDecision where
  "sample_decision = \<lparr>rd_next_agent = Code, reasoning = ''needs a calculation''\<rparr>"

definition calc_tool :: "nat tool" where
  "calc_tool = \<lparr>tool_name = ''execute_python'', tool_invoke = (\<lambda>a n. (Inr ''4'', Suc n))\<rparr>"

definition broken_tool :: "nat tool" where
  "broken_tool = \<lparr>tool_name = ''read_file'', tool_invoke = (\<lambda>a n. (Inl ''boom'', Suc n))\<rparr>"

definition calc_call :: tool_call where
  "calc_call = \<lparr>tc_name = ''execute_python'', tc_args = [(''code'', ''print(2+2)'')]\<rparr>"

definition broken_call :: tool_call where
  "broken_call = \<lparr>tc_name = ''read_file'', tc_args = [(''file_path'', ''/tmp/data/x'')]\<rparr>"

definition unbound_call :: tool_call where
  "unbound_call = \<lparr>tc_name = ''send_email'', tc_args = []\<rparr>"

definition sample_reply :: "tool_call list \<Rightarrow> message" where
  "sample_reply cs = \<lparr>role = AI, content = [], tool_calls = Some cs\<rparr>"

definition sample_tools :: "string \<rightharpoonup> nat tool list" where
  "sample_tools = [''code'' \<mapsto> [calc_tool], ''files'' \<mapsto> [broken_tool]]"

definition finish_turn :: llm_turn where
  "finish_turn = \<lparr>router_reply = Inr \<lparr>rd_next_agent = Finish, reasoning = ''done''\<rparr>,
                  worker_reply = Inl ''not asked''\<rparr>"

definition code_turn :: llm_turn where
  "code_turn = \<lparr>router_reply = Inr sample_decision,
                worker_reply = Inr (sample_reply [calc_call])\<rparr>"

definition timeout_sandbox :: "string \<Rightarrow> nat \<Rightarrow> exec_env \<times> nat" where
  "timeout_sandbox code n =
     (\<lparr>tempfile_error = None, subprocess_run = TimeoutExpired, unlink_error = None\<rparr>, Suc n)"

definition sample_python_tool :: "nat tool" where
  "sample_python_tool =
     execute_python_tool sample_config timeout_sandbox (\<lambda>a. ''code: field required'')"

definition loop_call :: tool_call where
  "loop_call = \<lparr>tc_name = ''execute_python'', tc_args = [(''code'', ''while True: pass'')]\<rparr>"

definition unset_config :: Config where
  "unset_config = sample_config\<lparr>openai_api_key := []\<rparr>"

definition ok_env :: os_env where
  "ok_env = \<lparr>os_makedirs = (\<lambda>d. None), os_write = (\<lambda>p b. None)\<rparr>"

definition failed_turn :: llm_turn where
  "failed_turn = \<lparr>router_reply = Inl ''APIConnectionError'',
                  worker_reply = Inl ''APIConnectionError''\<rparr>"

definition strict_ChatOpenAI :: "string \<Rightarrow> string \<Rightarrow> string + llm_client" where
  "strict_ChatOpenAI model key =
     (if key = [] then Inl ''OpenAIError: Missing credentials''
      else Inr \<lparr>client_model = model, client_api_key = key\<rparr>)"

definition sample_nodes :: "string \<rightharpoonup> nat agent_func" where
  "sample_nodes = map_of
     [(''research'', agent_node ''research'' []), (''code'', agent_node ''code'' [calc_tool]),
      (''files'', agent_node ''files'' [broken_tool]), (''database'', agent_node ''database'' []),
      (''api'', agent_node ''api'' [])]"

section \<open>The two branches of a worker turn\<close>

lemma agent_node_cases:
  "(\<exists>c cs trs w'. tool_calls r = Some (c # cs) \<and> run_tool_calls tools (c # cs) [] w = (trs, w')
      \<and> agent_node a tools r s w =
          (no_update\<lparr>upd_messages := Some [AIMessage (result_summary a trs)],
                     upd_intermediate_results :=
                       Some (get_intermediate_results s @ [\<lparr>agent = a, tool_results = trs\<rparr>])\<rparr>, w'))
   \<or> ((tool_calls r = None \<or> tool_calls r = Some [])
       \<and> agent_node a tools r s w = (no_update\<lparr>upd_messages := Some [r]\<rparr>, w))"
  by (cases "tool_calls r"; simp add: agent_node_def split: list.split prod.split)

section \<open>Frame of a router turn\<close>

text \<open>
  Claim C9. A supervisor turn returns an update with only \<open>next_agent\<close> (the decision)
  and \<open>task_context\<close> (the prior context with the rationale stored under
  \<open>last_routing_reason\<close>); it has no \<open>messages\<close> and no \<open>intermediate_results\<close>, so
  merging it leaves the message list and the results list as they were.
\<close>

theorem supervisor_turn_frame:
  "upd_messages (supervisor_node d s) = None
   \<and> upd_intermediate_results (supervisor_node d s) = None
   \<and> upd_next_agent (supervisor_node d s) = Some (agent_id (rd_next_agent d))
   \<and> upd_task_context (supervisor_node d s) =
       Some ((case task_context s of None \<Rightarrow> Map.empty | Some c \<Rightarrow> c)
               (''last_routing_reason'' \<mapsto> reasoning d))
   \<and> messages (merge s (supervisor_node d s)) = messages s
   \<and> intermediate_results (merge s (supervisor_node d s)) = intermediate_results s"
  by (simp add: supervisor_node_def merge_def no_update_def Let_def)

theorem supervisor_turn_frame_witness:
  "upd_messages (supervisor_node sample_decision sample_state) = None
   \<and> messages (merge sample_state (supervisor_node sample_decision sample_state))
       = [HumanMessage ''What is 2+2?'']
   \<and> intermediate_results (merge sample_state (supervisor_node sample_decision sample_state))
       = Some []"
  using supervisor_turn_frame [of sample_decision sample_state]
  by (simp add: sample_state_def)

section \<open>Frame of a worker turn\<close>

text \<open>
  Claim C5. The update a worker returns never has \<open>next_agent\<close> (nor \<open>task_context\<close>);
  it has exactly one new message, and its \<open>intermediate_results\<close>, when present, is the
  prior list with one record added at the end. After the merge the routing field is
  what it was, and the prior messages and results are a prefix of the new ones.
\<close>

theorem worker_turn_frame:
  "upd_next_agent (fst (agent_node a tools r s w)) = None
   \<and> upd_task_context (fst (agent_node a tools r s w)) = None
   \<and> (\<exists>m. upd_messages (fst (agent_node a tools r s w)) = Some [m])
   \<and> (upd_intermediate_results (fst (agent_node a tools r s w)) = None
       \<or> (\<exists>rec. upd_intermediate_results (fst (agent_node a tools r s w))
                   = Some (get_intermediate_results s @ [rec])))
   \<and> next_agent (merge s (fst (agent_node a tools r s w))) = next_agent s
   \<and> task_context (merge s (fst (agent_node a tools r s w))) = task_context s
   \<and> prefix (messages s) (messages (merge s (fst (agent_node a tools r s w))))
   \<and> prefix (get_intermediate_results s)
        (get_intermediate_results (merge s (fst (agent_node a tools r s w))))"
  using agent_node_cases [of r tools w a s]
  by (auto simp: merge_def no_update_def add_messages_def get_intermediate_results_def)

theorem worker_turn_frame_witness:
  "upd_next_agent
     (fst (agent_node ''code'' [calc_tool] (sample_reply [calc_call]) sample_state 0)) = None
   \<and> next_agent (merge sample_state
        (fst (agent_node ''code'' [calc_tool] (sample_reply [calc_call]) sample_state 0)))
       = Some []"
  using worker_turn_frame [of "''code''" "[calc_tool]" "sample_reply [calc_call]" sample_state 0]
  by (simp add: sample_state_def)

section \<open>History never shrinks\<close>

lemma merge_messages_length: "length (messages s) \<le> length (messages (merge s u))"
  by (simp add: merge_def add_messages_def split: option.split)

lemma graph_loop_messages_length:
  "length (messages s) \<le> length (messages (final_state (graph_loop nodes tape node s w acc)))"
proof (induction tape arbitrary: node s w acc)
  case Nil
  show ?case by simp
next
  case (Cons t ts)
  show ?case
  proof (cases "node = ''supervisor''")
    case True
    show ?thesis
    proof (cases "router_reply t")
      case (Inl e)
      with True show ?thesis by simp
    next
      case (Inr d)
      let ?s' = "merge s (supervisor_node d s)"
      have step: "length (messages s) \<le> length (messages ?s')"
        by (rule merge_messages_length)
      show ?thesis
      proof (cases "path_map (route_to_agent ?s')")
        case None
        with True Inr step show ?thesis by (simp add: Let_def)
      next
        case (Some target)
        show ?thesis
        proof (cases "target = END")
          case True
          with \<open>node = ''supervisor''\<close> Inr Some step show ?thesis by (simp add: Let_def)
        next
          case False
          have "length (messages ?s') \<le> length (messages (final_state
                  (graph_loop nodes ts target ?s' w (acc @ [(node, supervisor_node d s)]))))"
            by (rule Cons.IH)
          with \<open>node = ''supervisor''\<close> Inr Some False step show ?thesis
            by (simp add: Let_def)
        qed
      qed
    qed
  next
    case False
    show ?thesis
    proof (cases "nodes node")
      case None
      with False show ?thesis by simp
    next
      case (Some f)
      show ?thesis
      proof (cases "worker_reply t")
        case (Inl e)
        with False Some show ?thesis by simp
      next
        case (Inr r)
        obtain u w' where f: "f r s w = (u, w')" by (cases "f r s w")
        have "length (messages (merge s u)) \<le> length (messages (final_state
                (graph_loop nodes ts ''supervisor'' (merge s u) w' (acc @ [(node, u)]))))"
          by (rule Cons.IH)
        moreover have "length (messages s) \<le> length (messages (merge s u))"
          by (rule merge_messages_length)
        ultimately show ?thesis using False Some Inr f by simp
      qed
    qed
  qed
qed

text \<open>
  Claim C6. Merging any update, and so every completed supervisor turn and every
  completed worker turn, leaves the message list at least as long as it was; the same
  holds from the initial state to the last state of any run of the workflow, however
  the run ends.
\<close>

theorem history_length_monotone:
  "length (messages s) \<le> length (messages (merge s u))
   \<and> length (messages s) \<le> length (messages (merge s (supervisor_node d s)))
   \<and> length (messages s) \<le> length (messages (merge s (fst (agent_node a tools r s w))))
   \<and> length (messages s) \<le> length (messages (final_state (astream nodes tape s w)))"
  by (simp add: merge_messages_length graph_loop_messages_length astream_def)

theorem history_length_monotone_witness:
  "1 \<le> length (messages (merge sample_state
          (fst (agent_node ''code'' [calc_tool] (sample_reply [calc_call]) sample_state 0))))
   \<and> 1 \<le> length (messages (merge sample_state (supervisor_node sample_decision sample_state)))"
  using history_length_monotone [of sample_state no_update sample_decision "''code''"
      "[calc_tool]" "sample_reply [calc_call]" 0 Map.empty "[]"]
  by (simp add: sample_state_def)

section \<open>The loop ends exactly when the router says FINISH\<close>

lemma agent_id_finish: "agent_id a = ''FINISH'' \<longleftrightarrow> a = Finish"
  by (cases a) simp_all

lemma agent_id_not_end: "agent_id a \<noteq> END"
  by (cases a) (simp_all add: END_def)

lemma route_after_supervisor:
  "route_to_agent (merge s (supervisor_node d s)) =
     (if rd_next_agent d = Finish then END else agent_id (rd_next_agent d))"
  by (simp add: route_to_agent_def merge_def supervisor_node_def no_update_def Let_def
      agent_id_finish)

lemma path_map_agent:
  "a \<noteq> Finish \<Longrightarrow> path_map (agent_id a) = Some (agent_id a)"
  by (cases a) (simp_all add: path_map_def END_def)

lemma path_map_END: "path_map END = Some END"
  by (simp add: path_map_def END_def)

lemma supervisor_finish_chunk:
  "upd_next_agent (supervisor_node d s) = Some ''FINISH'' \<longleftrightarrow> rd_next_agent d = Finish"
  by (simp add: supervisor_node_def no_update_def Let_def agent_id_finish)

lemma graph_loop_ended_iff:
  "\<not> list_ex finish_chunk acc \<Longrightarrow>
   status (graph_loop nodes tape node s w acc) = Ended
     \<longleftrightarrow> list_ex finish_chunk (chunks (graph_loop nodes tape node s w acc))"
proof (induction tape arbitrary: node s w acc)
  case Nil
  then show ?case by simp
next
  case (Cons t ts)
  show ?case
  proof (cases "node = ''supervisor''")
    case True
    show ?thesis
    proof (cases "router_reply t")
      case (Inl e)
      with True Cons.prems show ?thesis by simp
    next
      case (Inr d)
      let ?u = "supervisor_node d s"
      let ?s' = "merge s ?u"
      show ?thesis
      proof (cases "rd_next_agent d = Finish")
        case fin: True
        then have "graph_loop nodes (t # ts) node s w acc =
            \<lparr>status = Ended, chunks = acc @ [(node, ?u)], final_state = ?s', world = w\<rparr>"
          using True Inr by (simp add: Let_def route_after_supervisor path_map_END)
        moreover have "finish_chunk (node, ?u)"
          using True fin by (simp add: finish_chunk_def supervisor_finish_chunk)
        ultimately show ?thesis by simp
      next
        case nofin: False
        then have eq: "graph_loop nodes (t # ts) node s w acc =
            graph_loop nodes ts (agent_id (rd_next_agent d)) ?s' w (acc @ [(node, ?u)])"
          using True Inr
          by (simp add: Let_def route_after_supervisor path_map_agent agent_id_not_end)
        have "\<not> finish_chunk (node, ?u)"
          using nofin by (simp add: finish_chunk_def supervisor_finish_chunk)
        with Cons.prems have "\<not> list_ex finish_chunk (acc @ [(node, ?u)])" by simp
        from Cons.IH [OF this] eq show ?thesis by simp
      qed
    qed
  next
    case False
    show ?thesis
    proof (cases "nodes node")
      case None
      with False Cons.prems show ?thesis by simp
    next
      case (Some f)
      show ?thesis
      proof (cases "worker_reply t")
        case (Inl e)
        with False Some Cons.prems show ?thesis by simp
      next
        case (Inr r)
        obtain u w' where f: "f r s w = (u, w')" by (cases "f r s w")
        have eq: "graph_loop nodes (t # ts) node s w acc =
            graph_loop nodes ts ''supervisor'' (merge s u) w' (acc @ [(node, u)])"
          using False Some Inr f by simp
        have "\<not> finish_chunk (node, u)"
          using False by (simp add: finish_chunk_def)
        with Cons.prems have "\<not> list_ex finish_chunk (acc @ [(node, u)])" by simp
        from Cons.IH [OF this] eq show ?thesis by simp
      qed
    qed
  qed
qed

lemma worker_step:
  "node \<noteq> ''supervisor'' \<Longrightarrow> nodes node = Some f \<Longrightarrow> worker_reply t = Inr r \<Longrightarrow>
   graph_loop nodes (t # ts) node s w acc =
     graph_loop nodes ts ''supervisor'' (merge s (fst (f r s w))) (snd (f r s w))
       (acc @ [(node, fst (f r s w))])"
  by (simp split: prod.split)

lemma worker_raise:
  "node \<noteq> ''supervisor'' \<Longrightarrow> nodes node = Some f \<Longrightarrow> worker_reply t = Inl e \<Longrightarrow>
   graph_loop nodes (t # ts) node s w acc =
     \<lparr>status = Raised e, chunks = acc, final_state = s, world = w\<rparr>"
  by simp

lemma worker_unknown:
  "node \<noteq> ''supervisor'' \<Longrightarrow> nodes node = None \<Longrightarrow>
   graph_loop nodes (t # ts) node s w acc =
     \<lparr>status = Raised (''unknown node: '' @ node), chunks = acc, final_state = s, world = w\<rparr>"
  by simp

lemma supervisor_step:
  "router_reply t = Inr d \<Longrightarrow>
   graph_loop nodes (t # ts) ''supervisor'' s w acc =
     (if rd_next_agent d = Finish
      then \<lparr>status = Ended, chunks = acc @ [(''supervisor'', supervisor_node d s)],
            final_state = merge s (supervisor_node d s), world = w\<rparr>
      else graph_loop nodes ts (agent_id (rd_next_agent d)) (merge s (supervisor_node d s)) w
             (acc @ [(''supervisor'', supervisor_node d s)]))"
  by (simp add: Let_def route_after_supervisor path_map_END path_map_agent agent_id_not_end)

lemma supervisor_raise:
  "router_reply t = Inl e \<Longrightarrow>
   graph_loop nodes (t # ts) ''supervisor'' s w acc =
     \<lparr>status = Raised e, chunks = acc, final_state = s, world = w\<rparr>"
  by simp

lemma create_nodes_lookup:
  "create_nodes ChatOpenAI cfg T ns = Inr fs \<Longrightarrow>
   map_of fs n =
     (if n \<in> set ns then Some (agent_node n (case T n of None \<Rightarrow> [] | Some ts \<Rightarrow> ts))
      else None)"
proof (induction ns arbitrary: fs)
  case Nil
  then show ?case by simp
next
  case (Cons m ms)
  from Cons.prems obtain f fs' where
    f: "create_agent_node ChatOpenAI cfg T m = Inr f" and
    fs': "create_nodes ChatOpenAI cfg T ms = Inr fs'" and
    fs: "fs = (m, f) # fs'"
    by (auto split: sum.splits)
  have "f = agent_node m (case T m of None \<Rightarrow> [] | Some ts \<Rightarrow> ts)"
    using f by (auto simp: create_agent_node_def Let_def split: sum.splits)
  with Cons.IH [OF fs'] fs show ?case by auto
qed

lemma AGENT_NODES_lookup:
  "AGENT_NODES ChatOpenAI cfg T = Inr nodes \<Longrightarrow>
   nodes n =
     (if n \<in> set agent_names
      then Some (agent_node n (case T n of None \<Rightarrow> [] | Some ts \<Rightarrow> ts))
      else None)"
  by (auto simp: AGENT_NODES_def create_nodes_lookup split: sum.splits)

lemma AGENT_NODES_raise:
  "ChatOpenAI (model_name cfg) (openai_api_key cfg) = Inl e \<Longrightarrow>
   AGENT_NODES ChatOpenAI cfg T = Inl e"
  by (simp add: AGENT_NODES_def agent_names_def create_agent_node_def)

lemma AGENT_NODES_sample:
  "AGENT_NODES strict_ChatOpenAI sample_config sample_tools = Inr sample_nodes"
  by (simp add: AGENT_NODES_def agent_names_def create_agent_node_def strict_ChatOpenAI_def
      sample_config_def sample_tools_def sample_nodes_def)

lemma route_to_agent_END_iff:
  "next_agent s \<noteq> Some END \<Longrightarrow>
   route_to_agent s = END \<longleftrightarrow> next_agent s = Some ''FINISH'' \<or> next_agent s = None"
  by (auto simp: route_to_agent_def Let_def split: option.splits)

lemma next_agent_after_supervisor:
  "next_agent (merge s (supervisor_node d s)) \<noteq> Some END"
  by (simp add: merge_def supervisor_node_def no_update_def Let_def agent_id_not_end)

lemma next_agent_after_worker:
  "next_agent (merge s (fst (agent_node a tools r s w))) = next_agent s"
  using agent_node_cases [of r tools w a s]
  by (auto simp: merge_def no_update_def)

lemma graph_loop_next_agent:
  assumes workers: "\<And>n f. nodes n = Some f \<Longrightarrow> \<exists>tools. f = agent_node n tools"
  shows "next_agent s \<noteq> Some END \<Longrightarrow>
   next_agent (final_state (graph_loop nodes tape node s w acc)) \<noteq> Some END"
proof (induction tape arbitrary: node s w acc)
  case Nil
  then show ?case by simp
next
  case (Cons t ts)
  show ?case
  proof (cases "node = ''supervisor''")
    case True
    show ?thesis
    proof (cases "router_reply t")
      case (Inl e)
      with True Cons.prems show ?thesis by simp
    next
      case (Inr d)
      let ?u = "supervisor_node d s"
      let ?s' = "merge s ?u"
      have s': "next_agent ?s' \<noteq> Some END" by (rule next_agent_after_supervisor)
      show ?thesis
      proof (cases "rd_next_agent d = Finish")
        case fin: True
        then have "graph_loop nodes (t # ts) node s w acc =
            \<lparr>status = Ended, chunks = acc @ [(node, ?u)], final_state = ?s', world = w\<rparr>"
          using True Inr by (simp add: Let_def route_after_supervisor path_map_END)
        with s' show ?thesis by simp
      next
        case nofin: False
        then have eq: "graph_loop nodes (t # ts) node s w acc =
            graph_loop nodes ts (agent_id (rd_next_agent d)) ?s' w (acc @ [(node, ?u)])"
          using True Inr
          by (simp add: Let_def route_after_supervisor path_map_agent agent_id_not_end)
        from Cons.IH [OF s'] eq show ?thesis by simp
      qed
    qed
  next
    case False
    show ?thesis
    proof (cases "nodes node")
      case None
      with False Cons.prems show ?thesis by simp
    next
      case (Some f)
      show ?thesis
      proof (cases "worker_reply t")
        case (Inl e)
        with False Some Cons.prems show ?thesis by simp
      next
        case (Inr r)
        obtain u w' where f: "f r s w = (u, w')" by (cases "f r s w")
        have eq: "graph_loop nodes (t # ts) node s w acc =
            graph_loop nodes ts ''supervisor'' (merge s u) w' (acc @ [(node, u)])"
          using False Some Inr f by simp
        obtain tools where "f = agent_node node tools"
          using workers [OF Some] by blast
        then have "u = fst (agent_node node tools r s w)"
          using f by simp
        then have "next_agent (merge s u) = next_agent s"
          by (simp add: next_agent_after_worker)
        with Cons.prems have "next_agent (merge s u) \<noteq> Some END" by simp
        from Cons.IH [OF this] eq show ?thesis by simp
      qed
    qed
  qed
qed

text \<open>
  Claim C1. A run of the workflow from the supervisor has ended exactly when one of its
  completed turns is a supervisor turn that set \<open>next_agent\<close> to \<open>FINISH\<close>; every other
  run was stopped by an exception or is still going. The routing function sends a state
  to \<open>END\<close> exactly when its \<open>next_agent\<close> is \<open>FINISH\<close> or absent, for every state whose
  \<open>next_agent\<close> is not the text of \<open>END\<close> itself, which holds of every state a run
  reaches; after a supervisor turn that is exactly when the decision was \<open>FINISH\<close>.
  Step by step: the run starts at the supervisor; a supervisor turn whose decision is
  \<open>FINISH\<close> ends the run there, with its update as last chunk, and any other decision
  continues at the chosen worker; a worker turn is always followed by the supervisor,
  with the worker's update merged; an exception of the language model, or a node name
  that the graph does not have, stops the run; and a run is still going, at its current
  node, when the replies are used up.
\<close>

theorem loop_ends_iff_router_finishes:
  "(status (astream nodes tape s w) = Ended
      \<longleftrightarrow> list_ex finish_chunk (chunks (astream nodes tape s w)))
   \<and> (next_agent s \<noteq> Some END \<longrightarrow>
        (route_to_agent s = END \<longleftrightarrow> next_agent s = Some ''FINISH'' \<or> next_agent s = None))
   \<and> (AGENT_NODES ChatOpenAI cfg T = Inr nodes \<and> next_agent s \<noteq> Some END \<longrightarrow>
        next_agent (final_state (astream nodes tape s w)) \<noteq> Some END)
   \<and> (route_to_agent (merge s (supervisor_node d s)) = END \<longleftrightarrow> rd_next_agent d = Finish)
   \<and> astream nodes tape s w = graph_loop nodes tape ''supervisor'' s w []
   \<and> graph_loop nodes [] node s w acc =
       \<lparr>status = Running node, chunks = acc, final_state = s, world = w\<rparr>
   \<and> (router_reply t = Inr d \<longrightarrow>
        graph_loop nodes (t # ts) ''supervisor'' s w acc =
          (if rd_next_agent d = Finish
           then \<lparr>status = Ended, chunks = acc @ [(''supervisor'', supervisor_node d s)],
                 final_state = merge s (supervisor_node d s), world = w\<rparr>
           else graph_loop nodes ts (agent_id (rd_next_agent d))
                  (merge s (supervisor_node d s)) w
                  (acc @ [(''supervisor'', supervisor_node d s)])))
   \<and> (router_reply t = Inl e \<longrightarrow>
        graph_loop nodes (t # ts) ''supervisor'' s w acc =
          \<lparr>status = Raised e, chunks = acc, final_state = s, world = w\<rparr>)
   \<and> (AGENT_NODES ChatOpenAI cfg T = Inr nodes \<and> node \<in> set agent_names
        \<and> worker_reply t = Inr r \<longrightarrow>
        graph_loop nodes (t # ts) node s w acc =
          graph_loop nodes ts ''supervisor''
            (merge s (fst (agent_node node (case T node of None \<Rightarrow> [] | Some x \<Rightarrow> x) r s w)))
            (snd (agent_node node (case T node of None \<Rightarrow> [] | Some x \<Rightarrow> x) r s w))
            (acc @ [(node,
               fst (agent_node node (case T node of None \<Rightarrow> [] | Some x \<Rightarrow> x) r s w))]))
   \<and> (AGENT_NODES ChatOpenAI cfg T = Inr nodes \<and> node \<in> set agent_names
        \<and> worker_reply t = Inl e \<longrightarrow>
        graph_loop nodes (t # ts) node s w acc =
          \<lparr>status = Raised e, chunks = acc, final_state = s, world = w\<rparr>)
   \<and> (node \<noteq> ''supervisor'' \<and> nodes node = Some f \<and> worker_reply t = Inr r \<longrightarrow>
        graph_loop nodes (t # ts) node s w acc =
          graph_loop nodes ts ''supervisor'' (merge s (fst (f r s w))) (snd (f r s w))
            (acc @ [(node, fst (f r s w))]))
   \<and> (node \<noteq> ''supervisor'' \<and> nodes node = Some f \<and> worker_reply t = Inl e \<longrightarrow>
        graph_loop nodes (t # ts) node s w acc =
          \<lparr>status = Raised e, chunks = acc, final_state = s, world = w\<rparr>)
   \<and> (node \<noteq> ''supervisor'' \<and> nodes node = None \<longrightarrow>
        graph_loop nodes (t # ts) node s w acc =
          \<lparr>status = Raised (''unknown node: '' @ node), chunks = acc, final_state = s,
           world = w\<rparr>)"
proof -
  have "\<not> list_ex finish_chunk ([] :: (string \<times> StateUpdate) list)" by simp
  then have c1: "status (astream nodes tape s w) = Ended
      \<longleftrightarrow> list_ex finish_chunk (chunks (astream nodes tape s w))"
    unfolding astream_def by (rule graph_loop_ended_iff)
  have c2: "next_agent s \<noteq> Some END \<longrightarrow>
        (route_to_agent s = END \<longleftrightarrow> next_agent s = Some ''FINISH'' \<or> next_agent s = None)"
    using route_to_agent_END_iff [of s] by blast
  have c3: "next_agent (final_state (astream nodes tape s w)) \<noteq> Some END"
    if built: "AGENT_NODES ChatOpenAI cfg T = Inr nodes" and s: "next_agent s \<noteq> Some END"
  proof -
    have "\<exists>tools. f = agent_node n tools" if "nodes n = Some f" for n f
      using AGENT_NODES_lookup [OF built, of n] that by (auto split: if_splits)
    then show ?thesis
      unfolding astream_def using s by (rule graph_loop_next_agent)
  qed
  have c4: "route_to_agent (merge s (supervisor_node d s)) = END \<longleftrightarrow> rd_next_agent d = Finish"
    by (simp add: route_after_supervisor agent_id_not_end)
  have c5: "astream nodes tape s w = graph_loop nodes tape ''supervisor'' s w []"
    by (simp add: astream_def)
  have c6: "graph_loop nodes [] node s w acc =
       \<lparr>status = Running node, chunks = acc, final_state = s, world = w\<rparr>"
    by simp
  have not_sup: "node \<noteq> ''supervisor''" if "node \<in> set agent_names"
    using that by (auto simp: agent_names_def)
  have c9: "graph_loop nodes (t # ts) node s w acc =
          graph_loop nodes ts ''supervisor''
            (merge s (fst (agent_node node (case T node of None \<Rightarrow> [] | Some x \<Rightarrow> x) r s w)))
            (snd (agent_node node (case T node of None \<Rightarrow> [] | Some x \<Rightarrow> x) r s w))
            (acc @ [(node,
               fst (agent_node node (case T node of None \<Rightarrow> [] | Some x \<Rightarrow> x) r s w))])"
    if built: "AGENT_NODES ChatOpenAI cfg T = Inr nodes" and n: "node \<in> set agent_names"
      and r: "worker_reply t = Inr r"
  proof -
    have "nodes node = Some (agent_node node (case T node of None \<Rightarrow> [] | Some x \<Rightarrow> x))"
      using AGENT_NODES_lookup [OF built, of node] n by simp
    with not_sup [OF n] r show ?thesis
      using worker_step
        [where f = "agent_node node (case T node of None \<Rightarrow> [] | Some x \<Rightarrow> x)"
           and node = node and nodes = nodes and t = t and r = r]
      by simp
  qed
  have c10: "graph_loop nodes (t # ts) node s w acc =
          \<lparr>status = Raised e, chunks = acc, final_state = s, world = w\<rparr>"
    if built: "AGENT_NODES ChatOpenAI cfg T = Inr nodes" and n: "node \<in> set agent_names"
      and r: "worker_reply t = Inl e"
  proof -
    have "nodes node = Some (agent_node node (case T node of None \<Rightarrow> [] | Some x \<Rightarrow> x))"
      using AGENT_NODES_lookup [OF built, of node] n by simp
    with not_sup [OF n] r show ?thesis
      using worker_raise
        [where f = "agent_node node (case T node of None \<Rightarrow> [] | Some x \<Rightarrow> x)"
           and node = node and nodes = nodes and t = t and e = e]
      by simp
  qed
  have c11: "node \<noteq> ''supervisor'' \<and> nodes node = Some f \<and> worker_reply t = Inr r \<longrightarrow>
        graph_loop nodes (t # ts) node s w acc =
          graph_loop nodes ts ''supervisor'' (merge s (fst (f r s w))) (snd (f r s w))
            (acc @ [(node, fst (f r s w))])"
    using worker_step [where f = f and node = node and nodes = nodes and t = t and r = r]
    by blast
  have c12: "node \<noteq> ''supervisor'' \<and> nodes node = Some f \<and> worker_reply t = Inl e \<longrightarrow>
        graph_loop nodes (t # ts) node s w acc =
          \<lparr>status = Raised e, chunks = acc, final_state = s, world = w\<rparr>"
    using worker_raise [where f = f and node = node and nodes = nodes and t = t and e = e]
    by blast
  have c13: "node \<noteq> ''supervisor'' \<and> nodes node = None \<longrightarrow>
        graph_loop nodes (t # ts) node s w acc =
          \<lparr>status = Raised (''unknown node: '' @ node), chunks = acc, final_state = s,
           world = w\<rparr>"
    using worker_unknown [of node nodes t ts s w acc] by blast
  have c78: "(router_reply t = Inr d \<longrightarrow>
        graph_loop nodes (t # ts) ''supervisor'' s w acc =
          (if rd_next_agent d = Finish
           then \<lparr>status = Ended, chunks = acc @ [(''supervisor'', supervisor_node d s)],
                 final_state = merge s (supervisor_node d s), world = w\<rparr>
           else graph_loop nodes ts (agent_id (rd_next_agent d))
                  (merge s (supervisor_node d s)) w
                  (acc @ [(''supervisor'', supervisor_node d s)])))
     \<and> (router_reply t = Inl e \<longrightarrow>
        graph_loop nodes (t # ts) ''supervisor'' s w acc =
          \<lparr>status = Raised e, chunks = acc, final_state = s, world = w\<rparr>)"
    using supervisor_step [of t d nodes ts s w acc] supervisor_raise [of t e nodes ts s w acc]
    by blast
  have c910: "(AGENT_NODES ChatOpenAI cfg T = Inr nodes \<and> node \<in> set agent_names
        \<and> worker_reply t = Inr r \<longrightarrow>
        graph_loop nodes (t # ts) node s w acc =
          graph_loop nodes ts ''supervisor''
            (merge s (fst (agent_node node (case T node of None \<Rightarrow> [] | Some x \<Rightarrow> x) r s w)))
            (snd (agent_node node (case T node of None \<Rightarrow> [] | Some x \<Rightarrow> x) r s w))
            (acc @ [(node,
               fst (agent_node node (case T node of None \<Rightarrow> [] | Some x \<Rightarrow> x) r s w))]))
     \<and> (AGENT_NODES ChatOpenAI cfg T = Inr nodes \<and> node \<in> set agent_names
        \<and> worker_reply t = Inl e \<longrightarrow>
        graph_loop nodes (t # ts) node s w acc =
          \<lparr>status = Raised e, chunks = acc, final_state = s, world = w\<rparr>)"
    using c9 c10 by blast
  have c3': "AGENT_NODES ChatOpenAI cfg T = Inr nodes \<and> next_agent s \<noteq> Some END \<longrightarrow>
        next_agent (final_state (astream nodes tape s w)) \<noteq> Some END"
    using c3 by blast
  show ?thesis
    by (intro conjI c1 c2 c3' c4 c5 c6 conjunct1 [OF c78] conjunct2 [OF c78]
        conjunct1 [OF c910] conjunct2 [OF c910] c11 c12 c13)
qed

theorem loop_ends_iff_router_finishes_witness:
  "AGENT_NODES strict_ChatOpenAI sample_config sample_tools = Inr sample_nodes
   \<and> next_agent sample_state \<noteq> Some END
   \<and> ''code'' \<in> set agent_names
   \<and> router_reply code_turn = Inr sample_decision
   \<and> worker_reply code_turn = Inr (sample_reply [calc_call])
   \<and> router_reply failed_turn = Inl ''APIConnectionError''
   \<and> worker_reply failed_turn = Inl ''APIConnectionError''
   \<and> status (astream sample_nodes [code_turn, code_turn, finish_turn] sample_state 0) = Ended
   \<and> list_ex finish_chunk
        (chunks (astream sample_nodes [code_turn, code_turn, finish_turn] sample_state 0))
   \<and> route_to_agent sample_state \<noteq> END
   \<and> next_agent (final_state
        (astream sample_nodes [code_turn, code_turn, finish_turn] sample_state 0)) \<noteq> Some END
   \<and> graph_loop sample_nodes [code_turn, finish_turn] ''supervisor'' sample_state 0 [] =
       graph_loop sample_nodes [finish_turn] ''code''
         (merge sample_state (supervisor_node sample_decision sample_state)) 0
         ([] @ [(''supervisor'', supervisor_node sample_decision sample_state)])
   \<and> graph_loop sample_nodes [failed_turn, finish_turn] ''supervisor'' sample_state 0 [] =
       \<lparr>status = Raised ''APIConnectionError'', chunks = [], final_state = sample_state,
        world = 0\<rparr>
   \<and> graph_loop sample_nodes [code_turn, finish_turn] ''code'' sample_state 0 [] =
       graph_loop sample_nodes [finish_turn] ''supervisor''
         (merge sample_state
            (fst (agent_node ''code'' [calc_tool] (sample_reply [calc_call]) sample_state 0)))
         (snd (agent_node ''code'' [calc_tool] (sample_reply [calc_call]) sample_state 0))
         ([] @ [(''code'',
            fst (agent_node ''code'' [calc_tool] (sample_reply [calc_call]) sample_state 0))])
   \<and> graph_loop sample_nodes [failed_turn, finish_turn] ''code'' sample_state 0 [] =
       \<lparr>status = Raised ''APIConnectionError'', chunks = [], final_state = sample_state,
        world = 0\<rparr>
   \<and> ''code'' \<noteq> ''supervisor''
   \<and> sample_nodes ''code'' = Some (agent_node ''code'' [calc_tool])
   \<and> ''billing'' \<noteq> ''supervisor''
   \<and> sample_nodes ''billing'' = None
   \<and> graph_loop sample_nodes [code_turn, finish_turn] ''billing'' sample_state 0 [] =
       \<lparr>status = Raised (''unknown node: '' @ ''billing''), chunks = [],
        final_state = sample_state, world = 0\<rparr>"
proof -
  have h9: "sample_nodes ''code'' = Some (agent_node ''code'' [calc_tool])
      \<and> sample_nodes ''billing'' = None"
    by (simp add: sample_nodes_def)
  have h0: "AGENT_NODES strict_ChatOpenAI sample_config sample_tools = Inr sample_nodes"
    by (rule AGENT_NODES_sample)
  have h1: "next_agent sample_state \<noteq> Some END"
    by (simp add: sample_state_def END_def)
  have h2: "''code'' \<in> set agent_names"
    by (simp add: agent_names_def)
  have h3: "router_reply code_turn = Inr sample_decision
      \<and> worker_reply code_turn = Inr (sample_reply [calc_call])"
    by (simp add: code_turn_def)
  have h4: "router_reply failed_turn = Inl ''APIConnectionError''
      \<and> worker_reply failed_turn = Inl ''APIConnectionError''"
    by (simp add: failed_turn_def)
  have h5: "status (astream sample_nodes [code_turn, code_turn, finish_turn] sample_state 0) = Ended"
    by code_simp
  have h6: "next_agent sample_state \<noteq> Some ''FINISH'' \<and> next_agent sample_state \<noteq> None"
    by (simp add: sample_state_def)
  have h7: "rd_next_agent sample_decision \<noteq> Finish
      \<and> agent_id (rd_next_agent sample_decision) = ''code''"
    by (simp add: sample_decision_def)
  have h8: "(case sample_tools ''code'' of None \<Rightarrow> [] | Some x \<Rightarrow> x) = [calc_tool]"
    by (simp add: sample_tools_def)
  show ?thesis
    using h0 h1 h2 h3 h4 h5 h6 h7 h8 h9
      loop_ends_iff_router_finishes [where nodes = sample_nodes
        and tape = "[code_turn, code_turn, finish_turn]" and s = sample_state and w = 0
        and ChatOpenAI = strict_ChatOpenAI and cfg = sample_config and T = sample_tools
        and d = sample_decision and node = "''code''" and acc = "[]" and t = code_turn
        and ts = "[finish_turn]" and e = "''APIConnectionError''"
        and r = "sample_reply [calc_call]" and f = "agent_node ''code'' [calc_tool]"]
      loop_ends_iff_router_finishes [where nodes = sample_nodes
        and tape = "[code_turn, code_turn, finish_turn]" and s = sample_state and w = 0
        and ChatOpenAI = strict_ChatOpenAI and cfg = sample_config and T = sample_tools
        and d = sample_decision and node = "''code''" and acc = "[]" and t = failed_turn
        and ts = "[finish_turn]" and e = "''APIConnectionError''"
        and r = "sample_reply [calc_call]" and f = "agent_node ''code'' [calc_tool]"]
      loop_ends_iff_router_finishes [where nodes = sample_nodes
        and tape = "[code_turn, code_turn, finish_turn]" and s = sample_state and w = 0
        and ChatOpenAI = strict_ChatOpenAI and cfg = sample_config and T = sample_tools
        and d = sample_decision and node = "''billing''" and acc = "[]" and t = code_turn
        and ts = "[finish_turn]" and e = "''APIConnectionError''"
        and r = "sample_reply [calc_call]" and f = "agent_node ''code'' [calc_tool]"]
    by simp
qed

section \<open>The tool-invocation loop of a worker turn\<close>

lemma result_summary_eq:
  "result_summary a trs =
     ''['' @ upper a @ '' AGENT RESULTS]'' @ nl @ concat (map summary_line trs)"
proof -
  have "foldl (\<lambda>s tr. s @ summary_line tr) h trs = h @ concat (map summary_line trs)" for h
    by (induction trs arbitrary: h) simp_all
  then show ?thesis by (simp add: result_summary_def)
qed

lemma run_tool_calls_acc:
  "run_tool_calls tools tcs acc w =
     (acc @ fst (run_tool_calls tools tcs [] w), snd (run_tool_calls tools tcs [] w))"
proof (induction tcs arbitrary: acc w)
  case Nil
  show ?case by simp
next
  case (Cons p ps)
  show ?case
  proof (cases "find_tool tools (tc_name p)")
    case None
    with Cons.IH [of acc w] show ?thesis by simp
  next
    case (Some t)
    obtain ou w1 where inv: "tool_invoke t (tc_args p) w = (ou, w1)"
      by (cases "tool_invoke t (tc_args p) w")
    show ?thesis
    proof (cases ou)
      case (Inl e)
      let ?e = "\<lparr>tr_tool = tc_name p, tr_args = tc_args p, tr_outcome = Error e\<rparr>"
      show ?thesis
        using Some inv Inl Cons.IH [of "acc @ [?e]" w1] Cons.IH [of "[?e]" w1] by simp
    next
      case (Inr v)
      let ?e = "\<lparr>tr_tool = tc_name p, tr_args = tc_args p, tr_outcome = Result v\<rparr>"
      show ?thesis
        using Some inv Inr Cons.IH [of "acc @ [?e]" w1] Cons.IH [of "[?e]" w1] by simp
    qed
  qed
qed

lemma run_tool_calls_append:
  "run_tool_calls tools (xs @ ys) acc w =
     (case run_tool_calls tools xs acc w of (a, w1) \<Rightarrow> run_tool_calls tools ys a w1)"
proof (induction xs arbitrary: acc w)
  case Nil
  show ?case by simp
next
  case (Cons p ps)
  show ?case
  proof (cases "find_tool tools (tc_name p)")
    case None
    with Cons.IH show ?thesis by simp
  next
    case (Some t)
    obtain ou w1 where inv: "tool_invoke t (tc_args p) w = (ou, w1)"
      by (cases "tool_invoke t (tc_args p) w")
    show ?thesis using Some inv Cons.IH by (cases ou) simp_all
  qed
qed

lemma run_tool_calls_skip:
  "find_tool tools (tc_name tc) = None \<Longrightarrow>
   run_tool_calls tools (pre @ tc # post) acc w = run_tool_calls tools (pre @ post) acc w"
proof (induction pre arbitrary: acc w)
  case Nil
  then show ?case by simp
next
  case (Cons p ps)
  show ?case
  proof (cases "find_tool tools (tc_name p)")
    case None
    with Cons show ?thesis by simp
  next
    case (Some t)
    obtain ou w1 where inv: "tool_invoke t (tc_args p) w = (ou, w1)"
      by (cases "tool_invoke t (tc_args p) w")
    show ?thesis
      using Some inv Cons.IH [OF Cons.prems] by (cases ou) simp_all
  qed
qed

lemma run_tool_calls_bound_names:
  "\<forall>tr \<in> set acc. find_tool tools (tr_tool tr) \<noteq> None \<Longrightarrow>
   \<forall>tr \<in> set (fst (run_tool_calls tools tcs acc w)). find_tool tools (tr_tool tr) \<noteq> None"
proof (induction tcs arbitrary: acc w)
  case Nil
  then show ?case by simp
next
  case (Cons p ps)
  show ?case
  proof (cases "find_tool tools (tc_name p)")
    case None
    with Cons show ?thesis by simp
  next
    case (Some t)
    obtain ou w1 where inv: "tool_invoke t (tc_args p) w = (ou, w1)"
      by (cases "tool_invoke t (tc_args p) w")
    show ?thesis
    proof (cases ou)
      case (Inl e)
      let ?acc = "acc @ [\<lparr>tr_tool = tc_name p, tr_args = tc_args p, tr_outcome = Error e\<rparr>]"
      have "\<forall>tr \<in> set ?acc. find_tool tools (tr_tool tr) \<noteq> None"
        using Cons.prems Some by simp
      from Cons.IH [OF this] show ?thesis using Some inv Inl by simp
    next
      case (Inr v)
      let ?acc = "acc @ [\<lparr>tr_tool = tc_name p, tr_args = tc_args p, tr_outcome = Result v\<rparr>]"
      have "\<forall>tr \<in> set ?acc. find_tool tools (tr_tool tr) \<noteq> None"
        using Cons.prems Some by simp
      from Cons.IH [OF this] show ?thesis using Some inv Inr by simp
    qed
  qed
qed

text \<open>
  Claim C2, as the code has it. A requested invocation whose name matches no tool bound
  to the worker is skipped: the loop goes on with the remaining invocations exactly as
  if it had not been requested, no entry of the turn's records carries its name, and no
  failure is recorded for it. When other invocations were requested the whole turn is
  the turn without it; when it was the only one, the turn still returns a summary
  message (the header alone) and a record with no invocation entries.
\<close>

theorem unbound_tool_call_skipped:
  assumes "find_tool tools (tc_name tc) = None"
  shows "run_tool_calls tools (pre @ tc # post) acc w = run_tool_calls tools (pre @ post) acc w
    \<and> (\<forall>tr \<in> set (fst (run_tool_calls tools (pre @ tc # post) [] w)). tr_tool tr \<noteq> tc_name tc)
    \<and> (pre @ post \<noteq> [] \<longrightarrow>
          agent_node a tools (r\<lparr>tool_calls := Some (pre @ tc # post)\<rparr>) s w
            = agent_node a tools (r\<lparr>tool_calls := Some (pre @ post)\<rparr>) s w)
    \<and> (pre @ post = [] \<longrightarrow>
          agent_node a tools (r\<lparr>tool_calls := Some (pre @ tc # post)\<rparr>) s w
            = (no_update\<lparr>upd_messages :=
                            Some [AIMessage (''['' @ upper a @ '' AGENT RESULTS]'' @ nl)],
                          upd_intermediate_results :=
                            Some (get_intermediate_results s
                                  @ [\<lparr>agent = a, tool_results = []\<rparr>])\<rparr>, w))"
proof -
  have skip: "run_tool_calls tools (pre @ tc # post) acc' w = run_tool_calls tools (pre @ post) acc' w"
    for acc'
    using assms by (rule run_tool_calls_skip)
  have names: "\<forall>tr \<in> set (fst (run_tool_calls tools (pre @ tc # post) [] w)).
                 find_tool tools (tr_tool tr) \<noteq> None"
    by (rule run_tool_calls_bound_names) simp
  have c2: "\<forall>tr \<in> set (fst (run_tool_calls tools (pre @ tc # post) [] w)). tr_tool tr \<noteq> tc_name tc"
    using names assms by auto
  have c3: "agent_node a tools (r\<lparr>tool_calls := Some (pre @ tc # post)\<rparr>) s w
            = agent_node a tools (r\<lparr>tool_calls := Some (pre @ post)\<rparr>) s w"
    if nonempty: "pre @ post \<noteq> []"
  proof -
    obtain x xs where ne: "pre @ post = x # xs" using nonempty by (cases "pre @ post") simp_all
    obtain y ys where ne': "pre @ tc # post = y # ys" by (cases "pre @ tc # post") simp_all
    have "run_tool_calls tools (y # ys) [] w = run_tool_calls tools (x # xs) [] w"
      using skip [of "[]"] ne ne' by simp
    then show ?thesis
      by (simp add: agent_node_def ne ne')
  qed
  have c4: "agent_node a tools (r\<lparr>tool_calls := Some (pre @ tc # post)\<rparr>) s w
            = (no_update\<lparr>upd_messages :=
                            Some [AIMessage (''['' @ upper a @ '' AGENT RESULTS]'' @ nl)],
                          upd_intermediate_results :=
                            Some (get_intermediate_results s
                                  @ [\<lparr>agent = a, tool_results = []\<rparr>])\<rparr>, w)"
    if "pre @ post = []"
    using that assms by (simp add: agent_node_def result_summary_def)
  show ?thesis using skip [of acc] c2 c3 c4 by blast
qed

theorem unbound_tool_call_skipped_witness:
  "find_tool [calc_tool] (tc_name unbound_call) = None
   \<and> run_tool_calls [calc_tool] ([] @ unbound_call # [calc_call]) [] 0
       = run_tool_calls [calc_tool] ([] @ [calc_call]) [] 0
   \<and> [] @ [calc_call] \<noteq> []
   \<and> agent_node ''code'' [calc_tool]
         ((sample_reply [])\<lparr>tool_calls := Some ([] @ unbound_call # [calc_call])\<rparr>) sample_state 0
       = agent_node ''code'' [calc_tool]
           ((sample_reply [])\<lparr>tool_calls := Some ([] @ [calc_call])\<rparr>) sample_state 0
   \<and> agent_node ''code'' [calc_tool]
         ((sample_reply [])\<lparr>tool_calls := Some ([] @ unbound_call # [])\<rparr>) sample_state 0
       = (no_update\<lparr>upd_messages :=
                       Some [AIMessage (''['' @ upper ''code'' @ '' AGENT RESULTS]'' @ nl)],
                     upd_intermediate_results :=
                       Some (get_intermediate_results sample_state
                             @ [\<lparr>agent = ''code'', tool_results = []\<rparr>])\<rparr>, 0)"
proof -
  have h: "find_tool [calc_tool] (tc_name unbound_call) = None"
    by (simp add: calc_tool_def unbound_call_def)
  show ?thesis
    using h
      unbound_tool_call_skipped [OF h, of "[]" "[calc_call]" "[]" 0 "''code''"
        "sample_reply []" sample_state]
      unbound_tool_call_skipped [OF h, of "[]" "[]" "[]" 0 "''code''"
        "sample_reply []" sample_state]
    by simp
qed

text \<open>
  The claim as stated fails: with \<open>execute_python\<close> bound and \<open>send_email\<close> requested before
  it, the turn's record and summary hold the \<open>execute_python\<close> result only, and no entry
  is a failure with the reason \<open>tool not found\<close>.
\<close>

theorem unbound_tool_call_no_failure_record:
  "find_tool [calc_tool] (tc_name unbound_call) = None
   \<and> upd_intermediate_results
        (fst (agent_node ''code'' [calc_tool] (sample_reply [unbound_call, calc_call])
                sample_state 0))
       = Some [\<lparr>agent = ''code'', tool_results =
                 [\<lparr>tr_tool = ''execute_python'', tr_args = [(''code'', ''print(2+2)'')],
                   tr_outcome = Result ''4''\<rparr>]\<rparr>]
   \<and> upd_messages
        (fst (agent_node ''code'' [calc_tool] (sample_reply [unbound_call, calc_call])
                sample_state 0))
       = Some [AIMessage (''[CODE AGENT RESULTS]'' @ nl @ ''Tool execute_python: 4'' @ nl)]
   \<and> \<not> list_ex (\<lambda>tr. tr_outcome tr = Error ''tool not found'')
          (fst (run_tool_calls [calc_tool] [unbound_call, calc_call] [] 0))"
  by code_simp

section \<open>One success and one failure in a turn\<close>

text \<open>
  Claim C3. In a worker turn with exactly two requested invocations, both of bound
  tools, where one invocation returns and the other raises (in either order), the
  summary message is the header followed by one line per invocation, \<open>Tool n: value\<close>
  for the one that returned and \<open>Tool n failed: reason\<close> for the one that raised, and the
  appended record has exactly these two entries, one result and one error.
\<close>

theorem two_calls_one_success_one_failure:
  assumes "tool_calls r = Some [c1, c2]"
    and "find_tool tools (tc_name c1) = Some t1"
    and "find_tool tools (tc_name c2) = Some t2"
    and "tool_invoke t1 (tc_args c1) w = (o1, w1)"
    and "tool_invoke t2 (tc_args c2) w1 = (o2, w2)"
  shows "(o1 = Inr v \<and> o2 = Inl e \<longrightarrow>
           agent_node a tools r s w =
             (no_update\<lparr>upd_messages := Some [AIMessage
                 (''['' @ upper a @ '' AGENT RESULTS]'' @ nl
                  @ ''Tool '' @ tc_name c1 @ '': '' @ v @ nl
                  @ ''Tool '' @ tc_name c2 @ '' failed: '' @ e @ nl)],
               upd_intermediate_results := Some (get_intermediate_results s @
                 [\<lparr>agent = a, tool_results =
                    [\<lparr>tr_tool = tc_name c1, tr_args = tc_args c1, tr_outcome = Result v\<rparr>,
                     \<lparr>tr_tool = tc_name c2, tr_args = tc_args c2, tr_outcome = Error e\<rparr>]\<rparr>])\<rparr>,
              w2))
       \<and> (o1 = Inl e \<and> o2 = Inr v \<longrightarrow>
           agent_node a tools r s w =
             (no_update\<lparr>upd_messages := Some [AIMessage
                 (''['' @ upper a @ '' AGENT RESULTS]'' @ nl
                  @ ''Tool '' @ tc_name c1 @ '' failed: '' @ e @ nl
                  @ ''Tool '' @ tc_name c2 @ '': '' @ v @ nl)],
               upd_intermediate_results := Some (get_intermediate_results s @
                 [\<lparr>agent = a, tool_results =
                    [\<lparr>tr_tool = tc_name c1, tr_args = tc_args c1, tr_outcome = Error e\<rparr>,
                     \<lparr>tr_tool = tc_name c2, tr_args = tc_args c2, tr_outcome = Result v\<rparr>]\<rparr>])\<rparr>,
              w2))"
  using assms
  by (simp add: agent_node_def result_summary_def summary_line_def)


theorem two_calls_one_success_one_failure_witness:
  "tool_calls (sample_reply [calc_call, broken_call]) = Some [calc_call, broken_call]
   \<and> find_tool [calc_tool, broken_tool] (tc_name calc_call) = Some calc_tool
   \<and> find_tool [calc_tool, broken_tool] (tc_name broken_call) = Some broken_tool
   \<and> tool_invoke calc_tool (tc_args calc_call) 0 = (Inr ''4'', 1)
   \<and> tool_invoke broken_tool (tc_args broken_call) 1 = (Inl ''boom'', 2)
   \<and> agent_node ''files'' [calc_tool, broken_tool] (sample_reply [calc_call, broken_call])
         sample_state 0 =
       (no_update\<lparr>upd_messages := Some [AIMessage
           (''[FILES AGENT RESULTS]'' @ nl
            @ ''Tool execute_python: 4'' @ nl
            @ ''Tool read_file failed: boom'' @ nl)],
         upd_intermediate_results := Some
           [\<lparr>agent = ''files'', tool_results =
              [\<lparr>tr_tool = ''execute_python'', tr_args = [(''code'', ''print(2+2)'')],
                tr_outcome = Result ''4''\<rparr>,
               \<lparr>tr_tool = ''read_file'', tr_args = [(''file_path'', ''/tmp/data/x'')],
                tr_outcome = Error ''boom''\<rparr>]\<rparr>]\<rparr>,
        2)"
proof -
  have h1: "tool_calls (sample_reply [calc_call, broken_call]) = Some [calc_call, broken_call]"
    by (simp add: sample_reply_def)
  have h2: "find_tool [calc_tool, broken_tool] (tc_name calc_call) = Some calc_tool"
    by (simp add: calc_tool_def calc_call_def)
  have h3: "find_tool [calc_tool, broken_tool] (tc_name broken_call) = Some broken_tool"
    by (simp add: calc_tool_def broken_tool_def broken_call_def)
  have h4: "tool_invoke calc_tool (tc_args calc_call) 0 = (Inr ''4'', 1)"
    by (simp add: calc_tool_def)
  have h5: "tool_invoke broken_tool (tc_args broken_call) 1 = (Inl ''boom'', 2)"
    by (simp add: broken_tool_def)
  have up: "upper ''files'' = ''FILES''"
    by code_simp
  have st: "get_intermediate_results sample_state = []"
    by (simp add: get_intermediate_results_def sample_state_def)
  show ?thesis
    using h1 h2 h3 h4 h5
      two_calls_one_success_one_failure [OF h1 h2 h3 h4 h5, of "''4''" "''boom''" "''files''"
        sample_state]
    by (simp add: up st calc_call_def broken_call_def)
qed

section \<open>When a worker turn appends a record\<close>

text \<open>
  Claim C4, as the code has it. A worker turn appends a record to the results exactly
  when the reply of its reasoning step requests at least one invocation. A reply with no
  requested invocations gives an update with only that reply as new message, and the
  results stay as they were; otherwise the update holds the prior results followed by
  exactly one new record with the worker's name and the entries of the invocations
  that were carried out.
\<close>

theorem results_record_iff_calls_requested:
  "((tool_calls r = None \<or> tool_calls r = Some []) \<longrightarrow>
      agent_node a tools r s w = (no_update\<lparr>upd_messages := Some [r]\<rparr>, w)
      \<and> intermediate_results (merge s (fst (agent_node a tools r s w)))
          = intermediate_results s)
   \<and> (\<forall>c cs. tool_calls r = Some (c # cs) \<longrightarrow>
        upd_intermediate_results (fst (agent_node a tools r s w))
          = Some (get_intermediate_results s
                  @ [\<lparr>agent = a, tool_results = fst (run_tool_calls tools (c # cs) [] w)\<rparr>])
        \<and> get_intermediate_results (merge s (fst (agent_node a tools r s w)))
          = get_intermediate_results s
            @ [\<lparr>agent = a, tool_results = fst (run_tool_calls tools (c # cs) [] w)\<rparr>])"
  using agent_node_cases [of r tools w a s]
  by (auto simp: merge_def no_update_def get_intermediate_results_def)

theorem results_record_iff_calls_requested_witness:
  "tool_calls (AIMessage ''4'') = Some []
   \<and> agent_node ''code'' [calc_tool] (AIMessage ''4'') sample_state 0
       = (no_update\<lparr>upd_messages := Some [AIMessage ''4'']\<rparr>, 0)
   \<and> tool_calls (sample_reply [calc_call]) = Some (calc_call # [])
   \<and> upd_intermediate_results
        (fst (agent_node ''code'' [calc_tool] (sample_reply [calc_call]) sample_state 0))
       = Some (get_intermediate_results sample_state
               @ [\<lparr>agent = ''code'',
                   tool_results = fst (run_tool_calls [calc_tool] (calc_call # []) [] 0)\<rparr>])"
proof -
  have h1: "tool_calls (AIMessage ''4'') = Some []"
    by (simp add: AIMessage_def)
  have h2: "tool_calls (sample_reply [calc_call]) = Some (calc_call # [])"
    by (simp add: sample_reply_def)
  show ?thesis
    using h1 h2
      results_record_iff_calls_requested [of "AIMessage ''4''" "''code''" "[calc_tool]"
        sample_state 0]
      results_record_iff_calls_requested [of "sample_reply [calc_call]" "''code''" "[calc_tool]"
        sample_state 0]
    by simp
qed

text \<open>
  The claim as stated, with "performed at least one invocation", fails: when the only
  requested invocation names no bound tool, no tool is invoked (the world's invocation
  count stays 0), yet a record, with no entries, is appended.
\<close>

theorem record_appended_without_invocation:
  "upd_intermediate_results
     (fst (agent_node ''code'' [calc_tool] (sample_reply [unbound_call]) sample_state 0))
     = Some [\<lparr>agent = ''code'', tool_results = []\<rparr>]
   \<and> snd (agent_node ''code'' [calc_tool] (sample_reply [unbound_call]) sample_state 0) = 0
   \<and> \<not> (upd_intermediate_results
            (fst (agent_node ''code'' [calc_tool] (sample_reply [unbound_call]) sample_state 0))
            \<noteq> None
          \<longrightarrow> 0 < snd (agent_node ''code'' [calc_tool] (sample_reply [unbound_call])
                        sample_state 0))"
  by (simp add: agent_node_def sample_reply_def unbound_call_def calc_tool_def
      sample_state_def get_intermediate_results_def no_update_def)


section \<open>A code execution that times out\<close>

lemma execute_python_timeout:
  "tempfile_error env = None \<Longrightarrow> subprocess_run env = TimeoutExpired \<Longrightarrow>
   execute_python cfg env =
     (case unlink_error env of
        None \<Rightarrow> ''Error: Code execution timed out after ''
                  @ str_int (code_execution_timeout cfg) @ '' seconds''
      | Some e \<Rightarrow> ''Execution error: '' @ e)"
  by (simp add: execute_python_def Let_def split: option.split)

lemma find_tool_name: "find_tool tools n = Some t \<Longrightarrow> tool_name t = n"
  by (induction tools) (auto split: if_splits)

text \<open>
  Claim C7, as the code has it. A requested \<open>execute_python\<close> invocation whose subprocess
  hits the configured timeout is not dropped: the record the turn returns holds an
  entry for it, in its place among the entries of the invocations requested before and
  after it, and the summary message holds its line, in the same place. But the entry is
  a result entry, not an error entry, and the line is \<open>Tool execute_python: text\<close>, not
  \<open>Tool execute_python failed: text\<close>: \<open>execute_python\<close> catches the timeout and returns
  the text \<open>Error: Code execution timed out after N seconds\<close> (\<open>Execution error: ...\<close>
  when removing the temporary file raises), and the worker records what a tool returns
  as its result.
\<close>

theorem timed_out_execution_recorded_as_result:
  assumes "tool_calls r = Some (pre @ tc # post)"
    and "find_tool tools (tc_name tc) = Some (execute_python_tool cfg sandbox bad_args)"
    and "map_of (tc_args tc) ''code'' = Some code"
    and "run_tool_calls tools pre [] w0 = (before, w)"
    and "sandbox code w = (env, w')"
    and "tempfile_error env = None"
    and "subprocess_run env = TimeoutExpired"
    and "run_tool_calls tools post [] w' = (after, w'')"
  shows "execute_python cfg env =
           (case unlink_error env of
              None \<Rightarrow> ''Error: Code execution timed out after ''
                        @ str_int (code_execution_timeout cfg) @ '' seconds''
            | Some e \<Rightarrow> ''Execution error: '' @ e)
    \<and> tc_name tc = ''execute_python''
    \<and> run_tool_calls tools (tc # rest) acc w =
          run_tool_calls tools rest
            (acc @ [\<lparr>tr_tool = ''execute_python'', tr_args = tc_args tc,
                     tr_outcome = Result (execute_python cfg env)\<rparr>]) w'
    \<and> agent_node a tools r s w0 =
          (no_update\<lparr>upd_messages := Some [AIMessage
               (''['' @ upper a @ '' AGENT RESULTS]'' @ nl
                @ concat (map summary_line before)
                @ ''Tool execute_python: '' @ execute_python cfg env @ nl
                @ concat (map summary_line after))],
             upd_intermediate_results := Some (get_intermediate_results s @
               [\<lparr>agent = a, tool_results =
                  before
                  @ \<lparr>tr_tool = ''execute_python'', tr_args = tc_args tc,
                      tr_outcome = Result (execute_python cfg env)\<rparr>
                  # after\<rparr>])\<rparr>,
           w'')"
proof -
  let ?entry = "\<lparr>tr_tool = ''execute_python'', tr_args = tc_args tc,
                  tr_outcome = Result (execute_python cfg env)\<rparr>"
  have msg: "execute_python cfg env =
           (case unlink_error env of
              None \<Rightarrow> ''Error: Code execution timed out after ''
                        @ str_int (code_execution_timeout cfg) @ '' seconds''
            | Some e \<Rightarrow> ''Execution error: '' @ e)"
    using assms(6,7) by (rule execute_python_timeout)
  have name: "tc_name tc = ''execute_python''"
    using find_tool_name [OF assms(2)] by (simp add: execute_python_tool_def)
  have step: "run_tool_calls tools (tc # rest') acc' w =
                run_tool_calls tools rest' (acc' @ [?entry]) w'" for rest' acc'
    using assms(2,3,5) name by (simp add: execute_python_tool_def)
  have "run_tool_calls tools (pre @ tc # post) [] w0 =
          run_tool_calls tools post (before @ [?entry]) w'"
    using assms(4) step [of post before] by (simp add: run_tool_calls_append)
  also have "\<dots> = ((before @ [?entry]) @ after, w'')"
    using run_tool_calls_acc [of tools post "before @ [?entry]" w'] assms(8) by simp
  finally have all: "run_tool_calls tools (pre @ tc # post) [] w0 =
      (before @ ?entry # after, w'')"
    by simp
  obtain c cs where cs: "pre @ tc # post = c # cs"
    by (cases "pre @ tc # post") simp_all
  have "agent_node a tools r s w0 =
      (no_update\<lparr>upd_messages := Some [AIMessage (result_summary a (before @ ?entry # after))],
         upd_intermediate_results := Some (get_intermediate_results s @
           [\<lparr>agent = a, tool_results = before @ ?entry # after\<rparr>])\<rparr>, w'')"
    using assms(1) all cs by (simp add: agent_node_def)
  then have turn: "agent_node a tools r s w0 =
          (no_update\<lparr>upd_messages := Some [AIMessage
               (''['' @ upper a @ '' AGENT RESULTS]'' @ nl
                @ concat (map summary_line before)
                @ ''Tool execute_python: '' @ execute_python cfg env @ nl
                @ concat (map summary_line after))],
             upd_intermediate_results := Some (get_intermediate_results s @
               [\<lparr>agent = a, tool_results = before @ ?entry # after\<rparr>])\<rparr>,
           w'')"
    by (simp add: result_summary_eq summary_line_def)
  show ?thesis using msg name step [of rest acc] turn by simp
qed

theorem timed_out_execution_recorded_as_result_witness:
  "tool_calls (sample_reply [broken_call, loop_call, broken_call])
     = Some ([broken_call] @ loop_call # [broken_call])
   \<and> find_tool [sample_python_tool, broken_tool] (tc_name loop_call)
       = Some (execute_python_tool sample_config timeout_sandbox (\<lambda>a. ''code: field required''))
   \<and> map_of (tc_args loop_call) ''code'' = Some ''while True: pass''
   \<and> run_tool_calls [sample_python_tool, broken_tool] [broken_call] [] 0
       = ([\<lparr>tr_tool = ''read_file'', tr_args = [(''file_path'', ''/tmp/data/x'')],
            tr_outcome = Error ''boom''\<rparr>], 1)
   \<and> timeout_sandbox ''while True: pass'' 1
       = (\<lparr>tempfile_error = None, subprocess_run = TimeoutExpired, unlink_error = None\<rparr>, 2)
   \<and> run_tool_calls [sample_python_tool, broken_tool] [broken_call] [] 2
       = ([\<lparr>tr_tool = ''read_file'', tr_args = [(''file_path'', ''/tmp/data/x'')],
            tr_outcome = Error ''boom''\<rparr>], 3)
   \<and> agent_node ''code'' [sample_python_tool, broken_tool]
         (sample_reply [broken_call, loop_call, broken_call]) sample_state 0 =
       (no_update\<lparr>upd_messages := Some [AIMessage
            (''[CODE AGENT RESULTS]'' @ nl
             @ ''Tool read_file failed: boom'' @ nl
             @ ''Tool execute_python: Error: Code execution timed out after 30 seconds'' @ nl
             @ ''Tool read_file failed: boom'' @ nl)],
          upd_intermediate_results := Some
            [\<lparr>agent = ''code'', tool_results =
               [\<lparr>tr_tool = ''read_file'', tr_args = [(''file_path'', ''/tmp/data/x'')],
                 tr_outcome = Error ''boom''\<rparr>,
                \<lparr>tr_tool = ''execute_python'', tr_args = [(''code'', ''while True: pass'')],
                 tr_outcome = Result ''Error: Code execution timed out after 30 seconds''\<rparr>,
                \<lparr>tr_tool = ''read_file'', tr_args = [(''file_path'', ''/tmp/data/x'')],
                 tr_outcome = Error ''boom''\<rparr>]\<rparr>]\<rparr>,
        3)"
proof -
  let ?env = "\<lparr>tempfile_error = None, subprocess_run = TimeoutExpired, unlink_error = None\<rparr>"
  let ?b = "\<lparr>tr_tool = ''read_file'', tr_args = [(''file_path'', ''/tmp/data/x'')],
             tr_outcome = Error ''boom''\<rparr>"
  have h1: "tool_calls (sample_reply [broken_call, loop_call, broken_call])
     = Some ([broken_call] @ loop_call # [broken_call])"
    by (simp add: sample_reply_def)
  have h2: "find_tool [sample_python_tool, broken_tool] (tc_name loop_call)
     = Some (execute_python_tool sample_config timeout_sandbox (\<lambda>a. ''code: field required''))"
    by (simp add: sample_python_tool_def loop_call_def execute_python_tool_def)
  have h3: "map_of (tc_args loop_call) ''code'' = Some ''while True: pass''"
    by (simp add: loop_call_def)
  have h4: "run_tool_calls [sample_python_tool, broken_tool] [broken_call] [] 0 = ([?b], 1)"
    by (simp add: sample_python_tool_def execute_python_tool_def broken_tool_def broken_call_def)
  have h5: "timeout_sandbox ''while True: pass'' 1 = (?env, 2)"
    by (simp add: timeout_sandbox_def)
  have h6: "tempfile_error ?env = None" by simp
  have h7: "subprocess_run ?env = TimeoutExpired" by simp
  have h8: "run_tool_calls [sample_python_tool, broken_tool] [broken_call] [] 2 = ([?b], 3)"
    by (simp add: sample_python_tool_def execute_python_tool_def broken_tool_def broken_call_def)
  have t: "str_int (code_execution_timeout sample_config) = ''30''"
    by code_simp
  have up: "upper ''code'' = ''CODE''"
    by code_simp
  have st: "get_intermediate_results sample_state = []"
    by (simp add: get_intermediate_results_def sample_state_def)
  show ?thesis
    using h1 h2 h3 h4 h5 h8
      timed_out_execution_recorded_as_result [OF h1 h2 h3 h4 h5 h6 h7 h8, of "[]" "[]" "''code''"
        sample_state]
    by (simp add: t up st loop_call_def summary_line_def)
qed

text \<open>
  The claim as stated fails: with the timeout configured as 30 seconds and a subprocess
  that never ends, the turn's only entry is a result with the text of the timeout
  message, no entry is an error, and the summary narrates it as \<open>Tool execute_python: ...\<close>
  rather than \<open>Tool execute_python failed: ...\<close>.
\<close>

theorem timed_out_execution_not_a_failure:
  "fst (run_tool_calls [sample_python_tool] [loop_call] [] 0) =
     [\<lparr>tr_tool = ''execute_python'', tr_args = [(''code'', ''while True: pass'')],
       tr_outcome = Result ''Error: Code execution timed out after 30 seconds''\<rparr>]
   \<and> \<not> list_ex (\<lambda>tr. case tr_outcome tr of Error e \<Rightarrow> True | Result v \<Rightarrow> False)
          (fst (run_tool_calls [sample_python_tool] [loop_call] [] 0))
   \<and> upd_messages
        (fst (agent_node ''code'' [sample_python_tool] (sample_reply [loop_call]) sample_state 0))
       = Some [AIMessage (''[CODE AGENT RESULTS]'' @ nl
            @ ''Tool execute_python: Error: Code execution timed out after 30 seconds'' @ nl)]"
  by code_simp


section \<open>Missing configuration\<close>

lemma run_agent_validates_first:
  "(openai_api_key cfg = [] \<longrightarrow>
      validate cfg = [''OPENAI_API_KEY'']
      \<and> run_agent cfg nodes tape query w
          = (None, Some ''Error: Missing required configuration: OPENAI_API_KEY''))
   \<and> (openai_api_key cfg \<noteq> [] \<longrightarrow>
      validate cfg = []
      \<and> fst (run_agent cfg nodes tape query w)
          = Some (astream nodes tape
                    \<lparr>messages = [HumanMessage query], next_agent = Some [],
                     task_context = Some [''original_query'' \<mapsto> query],
                     intermediate_results = Some []\<rparr> w))"
  by (simp add: validate_def run_agent_def Let_def)

text \<open>
  Claim C8. With the OpenAI API key empty, \<open>validate\<close> returns the list with the one name
  \<open>OPENAI_API_KEY\<close> rather than raising, and \<open>run_agent\<close>, once called, returns the
  message \<open>Error: Missing required configuration: OPENAI_API_KEY\<close> without starting the
  workflow. The program does not get that far when the constructor of the language-model
  client refuses an empty key: importing the package builds the worker nodes, the
  first \<open>create_agent_node\<close> raises, and the process ends with that exception, before
  \<open>run_agent\<close> is called and without the explanatory message.
\<close>

theorem missing_api_key_import_raises:
  assumes "openai_api_key cfg = []"
    and "ChatOpenAI (model_name cfg) [] = Inl e"
  shows "validate cfg = [''OPENAI_API_KEY'']
    \<and> run_agent cfg nodes tape query w
        = (None, Some ''Error: Missing required configuration: OPENAI_API_KEY'')
    \<and> create_agent_node ChatOpenAI cfg T ''research'' = Inl e
    \<and> AGENT_NODES ChatOpenAI cfg T = Inl e
    \<and> src_main ChatOpenAI cfg T tape query w = ImportRaised e"
proof -
  have ctor: "ChatOpenAI (model_name cfg) (openai_api_key cfg) = Inl e"
    using assms by simp
  have "create_agent_node ChatOpenAI cfg T ''research'' = Inl e"
    using ctor by (simp add: create_agent_node_def)
  moreover have "AGENT_NODES ChatOpenAI cfg T = Inl e"
    using ctor by (rule AGENT_NODES_raise)
  moreover have "validate cfg = [''OPENAI_API_KEY'']
    \<and> run_agent cfg nodes tape query w
        = (None, Some ''Error: Missing required configuration: OPENAI_API_KEY'')"
    using assms(1) run_agent_validates_first [of cfg nodes tape query w] by blast
  ultimately show ?thesis by (simp add: src_main_def)
qed

theorem missing_api_key_import_raises_witness:
  "openai_api_key unset_config = []
   \<and> strict_ChatOpenAI (model_name unset_config) [] = Inl ''OpenAIError: Missing credentials''
   \<and> validate unset_config = [''OPENAI_API_KEY'']
   \<and> run_agent unset_config sample_nodes [code_turn, code_turn, finish_turn] ''What is 2+2?'' 0
       = (None, Some ''Error: Missing required configuration: OPENAI_API_KEY'')
   \<and> src_main strict_ChatOpenAI unset_config sample_tools [code_turn, code_turn, finish_turn]
        ''What is 2+2?'' 0
       = ImportRaised ''OpenAIError: Missing credentials''"
proof -
  have h1: "openai_api_key unset_config = []"
    by (simp add: unset_config_def)
  have h2: "strict_ChatOpenAI (model_name unset_config) []
      = Inl ''OpenAIError: Missing credentials''"
    by (simp add: strict_ChatOpenAI_def)
  show ?thesis
    using h1 h2
      missing_api_key_import_raises [of unset_config strict_ChatOpenAI
        "''OpenAIError: Missing credentials''" sample_nodes
        "[code_turn, code_turn, finish_turn]" "''What is 2+2?''" 0 sample_tools]
    by simp
qed

section \<open>Confinement of file paths\<close>

lemma validate_path_None_iff:
  "validate_path abspath cfg p = None \<longleftrightarrow>
     (\<exists>a r. abspath p = Inr a \<and> abspath (allowed_file_path cfg) = Inr r \<and> prefix r a)"
  by (auto simp: validate_path_def split: sum.splits)

lemma abspath_database: "posix_abspath cwd ''/tmp/database.txt'' = Inr ''/tmp/database.txt''"
proof -
  have "normpath ''/tmp/database.txt'' = ''/tmp/database.txt''" by code_simp
  then show ?thesis by (simp add: posix_abspath_def)
qed

lemma abspath_data: "posix_abspath cwd ''/tmp/data'' = Inr ''/tmp/data''"
proof -
  have "normpath ''/tmp/data'' = ''/tmp/data''" by code_simp
  then show ?thesis by (simp add: posix_abspath_def)
qed

lemma dirname_database: "dirname ''/tmp/database.txt'' = ''/tmp''"
  by code_simp

text \<open>
  Claim C10. \<open>_validate_path\<close> accepts a path exactly when both calls of \<open>abspath\<close>
  return and the absolute allowed root is a prefix, as a string, of the absolute path.
  So with the root \<open>/tmp/data\<close> the path \<open>/tmp/database.txt\<close>, which is not under the
  directory \<open>/tmp/data/\<close>, is accepted, and \<open>write_file\<close> goes on to create the directory
  \<open>/tmp\<close> and to write the file, returning the success message when the operating system
  lets both through.
\<close>

theorem path_confinement_is_prefix_check:
  "(validate_path abspath cfg p = None \<longleftrightarrow>
      (\<exists>a r. abspath p = Inr a \<and> abspath (allowed_file_path cfg) = Inr r \<and> prefix r a))
   \<and> \<not> prefix (''/tmp/data'' @ ''/'') ''/tmp/database.txt''
   \<and> validate_path (posix_abspath cwd) (cfg\<lparr>allowed_file_path := ''/tmp/data''\<rparr>)
        ''/tmp/database.txt'' = None
   \<and> (os_makedirs env ''/tmp'' = None \<and> os_write env ''/tmp/database.txt'' body = None \<longrightarrow>
        write_file (posix_abspath cwd) (cfg\<lparr>allowed_file_path := ''/tmp/data''\<rparr>) env
          ''/tmp/database.txt'' body
        = (''Successfully wrote '' @ str_nat (length body)
             @ '' characters to /tmp/database.txt'',
           [Makedirs ''/tmp'', WriteText ''/tmp/database.txt'' body]))"
proof -
  let ?cfg = "cfg\<lparr>allowed_file_path := ''/tmp/data''\<rparr>"
  have v: "validate_path (posix_abspath cwd) ?cfg ''/tmp/database.txt'' = None"
    by (simp add: validate_path_def abspath_database abspath_data)
  have w: "write_file (posix_abspath cwd) ?cfg env ''/tmp/database.txt'' body
        = (''Successfully wrote '' @ str_nat (length body)
             @ '' characters to /tmp/database.txt'',
           [Makedirs ''/tmp'', WriteText ''/tmp/database.txt'' body])"
    if "os_makedirs env ''/tmp'' = None" and "os_write env ''/tmp/database.txt'' body = None"
    using that by (simp add: write_file_def v write_checked_def dirname_database)
  have n: "\<not> prefix (''/tmp/data'' @ ''/'') ''/tmp/database.txt''" by simp
  show ?thesis using validate_path_None_iff [of abspath cfg p] v w n by blast
qed

theorem path_confinement_is_prefix_check_witness:
  "os_makedirs ok_env ''/tmp'' = None
   \<and> os_write ok_env ''/tmp/database.txt'' ''hello'' = None
   \<and> validate_path (posix_abspath ''/home/user'') (sample_config\<lparr>allowed_file_path := ''/tmp/data''\<rparr>)
        ''/tmp/database.txt'' = None
   \<and> write_file (posix_abspath ''/home/user'') (sample_config\<lparr>allowed_file_path := ''/tmp/data''\<rparr>)
        ok_env ''/tmp/database.txt'' ''hello''
       = (''Successfully wrote 5 characters to /tmp/database.txt'',
          [Makedirs ''/tmp'', WriteText ''/tmp/database.txt'' ''hello''])"
proof -
  have h1: "os_makedirs ok_env ''/tmp'' = None" by (simp add: ok_env_def)
  have h2: "os_write ok_env ''/tmp/database.txt'' ''hello'' = None" by (simp add: ok_env_def)
  have n: "str_nat (length ''hello'') = ''5''" by code_simp
  show ?thesis
    using h1 h2 n
      path_confinement_is_prefix_check [of "posix_abspath ''/home/user''" sample_config
        "''/tmp/database.txt''" "''/home/user''" ok_env "''hello''"]
    by simp
qed


end
